theory Spec2Isabelle
  imports Main "HOL-Library.Sublist" "HOL-Library.Multiset" "HOL-Library.Char_ord"
    "HOL-Library.List_Lexorder"
begin

section \<open>Values and exceptions\<close>

text \<open>
  The script \<^verbatim>\<open>provisioner.py\<close> handles three kinds of data: the command-line
  namespace, the values that \<^verbatim>\<open>json.load\<close> produces from the parameters file, and
  the exceptions that travel through \<^verbatim>\<open>main\<close>.

  A value read by \<^verbatim>\<open>json.load\<close> is a Python \<^verbatim>\<open>None\<close>, \<^verbatim>\<open>bool\<close>, \<^verbatim>\<open>int\<close>,
  \<^verbatim>\<open>str\<close>, \<^verbatim>\<open>list\<close> or \<^verbatim>\<open>dict\<close>. A \<^verbatim>\<open>dict\<close> keeps its insertion order, so it
  is an association list here. Floating-point numbers are left out of the model.
  A \<open>string\<close> stands for a Python \<^verbatim>\<open>str\<close> whose code points are below 256.
\<close>

datatype json =
    JNull
  | JBool bool
  | JInt int
  | JStr string
  | JArr "json list"
  | JObj "(string \<times> json) list"

text \<open>
  The exception classes. The first four are the ones \<^verbatim>\<open>main\<close> imports from
  \<^verbatim>\<open>provisioner.exceptions\<close> and names in its \<^verbatim>\<open>except\<close> clauses; they are taken to
  be unrelated classes. \<open>KeyError\<close>, \<open>TypeError\<close>, \<open>OSError\<close>, \<open>JSONDecodeError\<close>
  and \<open>UnboundLocalError\<close> are the built-in exceptions that the statements of the script
  itself can raise. \<open>OtherError\<close> is any other exception class a collaborator may
  raise (a provider that is not found, an invalid template, a failed stack call).
\<close>

datatype exn =
    SAMLProviderExistsError
  | NoUpdateToPerformError
  | StackExistsError
  | RoleNotFoundError
  | KeyError string
  | TypeError
  | OSError
  | JSONDecodeError
  | UnboundLocalError
  | OtherError string

section \<open>Python operations on loaded values\<close>

text \<open>
  \<^verbatim>\<open>needle in s\<close> on two strings is substring containment: \<open>is_substring\<close> walks
  over the haystack and tests whether the needle is a prefix of the rest.
\<close>

fun is_substring :: "string \<Rightarrow> string \<Rightarrow> bool" where
  "is_substring needle [] = (needle = [])"
| "is_substring needle (c # cs) = (prefix needle (c # cs) \<or> is_substring needle cs)"

text \<open>
  \<^verbatim>\<open>needle in v\<close> for a string \<open>needle\<close>: containment in a \<^verbatim>\<open>str\<close>, membership in
  a \<^verbatim>\<open>list\<close>, key membership in a \<^verbatim>\<open>dict\<close>; \<^verbatim>\<open>None\<close>, booleans and numbers are
  not iterable.
\<close>

fun py_contains :: "string \<Rightarrow> json \<Rightarrow> exn + bool" where
  "py_contains needle (JStr s) = Inr (is_substring needle s)"
| "py_contains needle (JArr xs) = Inr (JStr needle \<in> set xs)"
| "py_contains needle (JObj kvs) = Inr (needle \<in> set (map fst kvs))"
| "py_contains needle JNull = Inl TypeError"
| "py_contains needle (JBool b) = Inl TypeError"
| "py_contains needle (JInt n) = Inl TypeError"

text \<open>
  \<^verbatim>\<open>v[k]\<close> for a string \<open>k\<close>: a \<^verbatim>\<open>dict\<close> looks the key up and raises \<^verbatim>\<open>KeyError\<close>
  when it is absent; every other value raises \<^verbatim>\<open>TypeError\<close>.
\<close>

fun py_getitem :: "json \<Rightarrow> string \<Rightarrow> exn + json" where
  "py_getitem (JObj kvs) k =
     (case map_of kvs k of None \<Rightarrow> Inl (KeyError k) | Some v \<Rightarrow> Inr v)"
| "py_getitem JNull k = Inl TypeError"
| "py_getitem (JBool b) k = Inl TypeError"
| "py_getitem (JInt n) k = Inl TypeError"
| "py_getitem (JStr s) k = Inl TypeError"
| "py_getitem (JArr xs) k = Inl TypeError"

text \<open>
  \<^verbatim>\<open>d[k] = x\<close> on an insertion-ordered \<^verbatim>\<open>dict\<close>: an existing key keeps its place
  and gets the new value, a new key is added at the end.
\<close>

fun dict_set :: "string \<Rightarrow> json \<Rightarrow> (string \<times> json) list \<Rightarrow> (string \<times> json) list" where
  "dict_set k x [] = [(k, x)]"
| "dict_set k x ((k', v) # kvs) =
     (if k' = k then (k, x) # kvs else (k', v) # dict_set k x kvs)"

fun py_setitem :: "json \<Rightarrow> string \<Rightarrow> json \<Rightarrow> exn + json" where
  "py_setitem (JObj kvs) k x = Inr (JObj (dict_set k x kvs))"
| "py_setitem JNull k x = Inl TypeError"
| "py_setitem (JBool b) k x = Inl TypeError"
| "py_setitem (JInt n) k x = Inl TypeError"
| "py_setitem (JStr s) k x = Inl TypeError"
| "py_setitem (JArr xs) k x = Inl TypeError"

section \<open>Binding the parameters: \<^verbatim>\<open>process_params\<close>\<close>

text \<open>
  The body of the loop in \<^verbatim>\<open>process_params\<close>, for one \<open>param\<close>:
  \<^verbatim>\<open>
  if 'SAMLProviderARN' in param['ParameterKey']:
      param['ParameterValue'] = saml_provider_arn
  if 'RoleName' in param['ParameterKey']:
      param['ParameterValue'] = role_name
  \<close>
  Each subscript and each \<^verbatim>\<open>in\<close> may raise; the first exception ends the function.
\<close>

definition process_param :: "string \<Rightarrow> string \<Rightarrow> json \<Rightarrow> exn + json" where
  "process_param saml_provider_arn role_name param =
     (case py_getitem param ''ParameterKey'' of
        Inl e \<Rightarrow> Inl e
      | Inr k1 \<Rightarrow>
     (case py_contains ''SAMLProviderARN'' k1 of
        Inl e \<Rightarrow> Inl e
      | Inr b1 \<Rightarrow>
     (case (if b1 then py_setitem param ''ParameterValue'' (JStr saml_provider_arn)
            else Inr param) of
        Inl e \<Rightarrow> Inl e
      | Inr param1 \<Rightarrow>
     (case py_getitem param1 ''ParameterKey'' of
        Inl e \<Rightarrow> Inl e
      | Inr k2 \<Rightarrow>
     (case py_contains ''RoleName'' k2 of
        Inl e \<Rightarrow> Inl e
      | Inr b2 \<Rightarrow>
        (if b2 then py_setitem param1 ''ParameterValue'' (JStr role_name)
         else Inr param1))))))"

text \<open>The loop \<^verbatim>\<open>for param in params\<close> over a list, entry by entry, in order.\<close>

fun process_list :: "string \<Rightarrow> string \<Rightarrow> json list \<Rightarrow> exn + json list" where
  "process_list saml_provider_arn role_name [] = Inr []"
| "process_list saml_provider_arn role_name (param # params) =
     (case process_param saml_provider_arn role_name param of
        Inl e \<Rightarrow> Inl e
      | Inr param' \<Rightarrow>
          (case process_list saml_provider_arn role_name params of
             Inl e \<Rightarrow> Inl e
           | Inr params' \<Rightarrow> Inr (param' # params')))"

text \<open>
  \<^verbatim>\<open>for param in params\<close> on whatever \<^verbatim>\<open>json.load\<close> returned. A list is walked
  entry by entry. A \<^verbatim>\<open>dict\<close> or a \<^verbatim>\<open>str\<close> yields strings (its keys, its characters),
  and \<^verbatim>\<open>param['ParameterKey']\<close> on a string raises \<^verbatim>\<open>TypeError\<close>; when empty, the
  loop body never runs and the value is returned as it is. Anything else is not
  iterable.
\<close>

fun process_json :: "string \<Rightarrow> string \<Rightarrow> json \<Rightarrow> exn + json" where
  "process_json saml_provider_arn role_name (JArr params) =
     (case process_list saml_provider_arn role_name params of
        Inl e \<Rightarrow> Inl e
      | Inr params' \<Rightarrow> Inr (JArr params'))"
| "process_json saml_provider_arn role_name (JObj kvs) =
     (if kvs = [] then Inr (JObj []) else Inl TypeError)"
| "process_json saml_provider_arn role_name (JStr s) =
     (if s = [] then Inr (JStr []) else Inl TypeError)"
| "process_json saml_provider_arn role_name JNull = Inl TypeError"
| "process_json saml_provider_arn role_name (JBool b) = Inl TypeError"
| "process_json saml_provider_arn role_name (JInt n) = Inl TypeError"

section \<open>The collaborators\<close>

text \<open>
  \<^verbatim>\<open>main\<close> calls functions of the packages \<^verbatim>\<open>provisioner.iam_helpers\<close> and
  \<^verbatim>\<open>provisioner.cfn_helpers\<close> and reads one file. They are parameters of the model:
  each collaborator is a function from its arguments to either the exception it
  raises (\<open>Inl\<close>) or the value it returns (\<open>Inr\<close>). \<^verbatim>\<open>main\<close> calls each of them at
  most once in a run, so a function of the arguments can stand for any behaviour of
  the account during that run. Provider references and stack identifiers are strings;
  the answers of \<^verbatim>\<open>update_stack\<close> and \<^verbatim>\<open>look_up_role\<close> are structured values.
\<close>

text \<open>What \<^verbatim>\<open>json.load(open(path, 'r'))\<close> finds at a path.\<close>

datatype file_content = NoSuchFile | NotJSON | Parsed json

record env =
  add_saml_provider :: "string \<Rightarrow> string \<Rightarrow> exn + string"
  look_up_saml_provider :: "string \<Rightarrow> exn + string"
  read_file :: "string \<Rightarrow> file_content"
  validate_template :: "string \<Rightarrow> exn + unit"
  create_stack :: "string \<Rightarrow> string \<Rightarrow> json \<Rightarrow> exn + string"
  update_stack :: "string \<Rightarrow> string \<Rightarrow> json \<Rightarrow> exn + json"
  look_up_role :: "string \<Rightarrow> exn + json"

text \<open>
  \<^verbatim>\<open>params = json.load(open(params_file, 'r'))\<close>: \<^verbatim>\<open>open(None, 'r')\<close> raises
  \<^verbatim>\<open>TypeError\<close>, a missing file raises an \<^verbatim>\<open>OSError\<close>, a file that is not JSON
  raises \<^verbatim>\<open>JSONDecodeError\<close>.
\<close>

definition json_load :: "env \<Rightarrow> string option \<Rightarrow> exn + json" where
  "json_load ev params_file =
     (case params_file of
        None \<Rightarrow> Inl TypeError
      | Some path \<Rightarrow>
          (case read_file ev path of
             NoSuchFile \<Rightarrow> Inl OSError
           | NotJSON \<Rightarrow> Inl JSONDecodeError
           | Parsed params \<Rightarrow> Inr params))"

text \<open>
  \<^verbatim>\<open>process_params(params_file, saml_provider_arn, role_name)\<close>. Its one log call is
  at level DEBUG, below the logger's threshold, and writes nothing.
\<close>

definition process_params :: "env \<Rightarrow> string option \<Rightarrow> string \<Rightarrow> string \<Rightarrow> exn + json" where
  "process_params ev params_file saml_provider_arn role_name =
     (case json_load ev params_file of
        Inl e \<Rightarrow> Inl e
      | Inr params \<Rightarrow> process_json saml_provider_arn role_name params)"

section \<open>The command-line namespace\<close>

text \<open>
  The namespace that \<^verbatim>\<open>parse_args\<close> hands to \<^verbatim>\<open>main\<close>. Every option has
  \<^verbatim>\<open>type=str\<close>; \<^verbatim>\<open>params_file\<close> is declared without \<^verbatim>\<open>default=\<close> and without
  \<^verbatim>\<open>required=True\<close>, so it is \<^verbatim>\<open>None\<close> when the option is not given.
\<close>

record args =
  saml_metadata :: string
  template_path :: string
  params_file :: "string option"
  stack_name :: string
  provider_name :: string
  role_name :: string
  role_description :: string

section \<open>The trace of a run\<close>

text \<open>
  A run is observed through the calls it makes to its collaborators, with their
  arguments, and through the records its logger writes. A log record keeps the level,
  the format string and the arguments, as \<^verbatim>\<open>logging\<close> does.
\<close>

datatype level = DEBUG | INFO | WARNING

datatype logarg = AStr string | AJson json

datatype event =
    Log level string "logarg list"
  | AddSamlProvider string string
  | LookUpSamlProvider string
  | ProcessParams "string option" string string
  | ValidateTemplate string
  | CreateStack string string json
  | UpdateStack string string json
  | LookUpRole string
  | GenerateAdRole string string json string

text \<open>The numeric levels of \<^verbatim>\<open>logging\<close>.\<close>

fun levelno :: "level \<Rightarrow> nat" where
  "levelno DEBUG = 10"
| "levelno INFO = 20"
| "levelno WARNING = 30"

text \<open>
  \<^verbatim>\<open>setup_logger\<close> sets the logger and its only handler to \<^verbatim>\<open>logging.INFO\<close>: a
  record below that level is dropped, any other is written.
\<close>

definition log :: "level \<Rightarrow> string \<Rightarrow> logarg list \<Rightarrow> event list \<Rightarrow> event list" where
  "log lvl msg as tr = (if levelno INFO \<le> levelno lvl then tr @ [Log lvl msg as] else tr)"

section \<open>The orchestrator: \<^verbatim>\<open>main\<close>\<close>

text \<open>
  Each block of \<^verbatim>\<open>main\<close> takes the trace so far and returns the extended trace
  with either the exception that leaves the block or the value the block binds.
  A call to a collaborator is recorded before its outcome is inspected.
\<close>

text \<open>
  The first block:
  \<^verbatim>\<open>
  try:
      saml_provider_arn = saml.add_saml_provider(args.saml_metadata, args.provider_name)
  except SAMLProviderExistsError:
      __logger__.info("SAML provider %s already exists. Looking up ARN...", args.provider_name)
      saml_provider_arn = saml.look_up_saml_provider(args.provider_name)
  __logger__.debug("Identity Provider: %s", saml_provider_arn)
  \<close>
  The lookup runs inside the handler, outside any \<^verbatim>\<open>try\<close>: whatever it raises
  leaves \<^verbatim>\<open>main\<close>.
\<close>

definition register_provider :: "env \<Rightarrow> args \<Rightarrow> event list \<Rightarrow> event list \<times> (exn + string)" where
  "register_provider ev a tr =
     (let tr1 = tr @ [AddSamlProvider (saml_metadata a) (provider_name a)] in
      case add_saml_provider ev (saml_metadata a) (provider_name a) of
        Inr saml_provider_arn \<Rightarrow>
          (log DEBUG ''Identity Provider: %s'' [AStr saml_provider_arn] tr1,
           Inr saml_provider_arn)
      | Inl e \<Rightarrow>
          if e = SAMLProviderExistsError then
            (let tr2 = log INFO ''SAML provider %s already exists. Looking up ARN...''
                         [AStr (provider_name a)] tr1;
                 tr3 = tr2 @ [LookUpSamlProvider (provider_name a)] in
             case look_up_saml_provider ev (provider_name a) of
               Inr saml_provider_arn \<Rightarrow>
                 (log DEBUG ''Identity Provider: %s'' [AStr saml_provider_arn] tr3,
                  Inr saml_provider_arn)
             | Inl e' \<Rightarrow> (tr3, Inl e'))
          else (tr1, Inl e))"

text \<open>
  The handlers of the second block:
  \<^verbatim>\<open>
  except StackExistsError:
      __logger__.info("Stack %s already exists. Updating stack instead.", stack_name)
      try:
          response = update_stack(stack_name, template_path, parameters)
          __logger__.debug("Stack updated successfully. Response: %s", response)
      except NoUpdateToPerformError:
          __logger__.debug("Stack does not require Updating.")
  \<close>
  \<open>parameters\<close> is \<open>None\<close> when the exception left the \<^verbatim>\<open>try\<close> body before the
  variable was bound; reading it then raises \<^verbatim>\<open>UnboundLocalError\<close>.
\<close>

definition stack_exists_handler ::
    "env \<Rightarrow> args \<Rightarrow> json option \<Rightarrow> exn \<Rightarrow> event list \<Rightarrow> event list \<times> (exn + unit)" where
  "stack_exists_handler ev a parameters e tr =
     (if e = StackExistsError then
        (let tr1 = log INFO ''Stack %s already exists. Updating stack instead.''
                     [AStr (stack_name a)] tr in
         case parameters of
           None \<Rightarrow> (tr1, Inl UnboundLocalError)
         | Some ps \<Rightarrow>
             (let tr2 = tr1 @ [UpdateStack (stack_name a) (template_path a) ps] in
              case update_stack ev (stack_name a) (template_path a) ps of
                Inr response \<Rightarrow>
                  (log DEBUG ''Stack updated successfully. Response: %s'' [AJson response] tr2,
                   Inr ())
              | Inl e' \<Rightarrow>
                  if e' = NoUpdateToPerformError then
                    (log DEBUG ''Stack does not require Updating.'' [] tr2, Inr ())
                  else (tr2, Inl e')))
      else (tr, Inl e))"

text \<open>
  The second block:
  \<^verbatim>\<open>
  try:
      parameters = process_params(params_file, saml_provider_arn, role_name)
      __logger__.debug("Validating template '%s'", template_path)
      validate_template(template_path)
      stack_id = create_stack(stack_name, template_path, parameters)
      __logger__.info("Stack created. ID: %s", stack_id)
  except StackExistsError: ...
  \<close>
  All three calls are inside the one \<^verbatim>\<open>try\<close>, so the handler sees an exception of
  any of them.
\<close>

definition reconcile_stack ::
    "env \<Rightarrow> args \<Rightarrow> string \<Rightarrow> event list \<Rightarrow> event list \<times> (exn + unit)" where
  "reconcile_stack ev a saml_provider_arn tr =
     (let tr1 = tr @ [ProcessParams (params_file a) saml_provider_arn (role_name a)] in
      case process_params ev (params_file a) saml_provider_arn (role_name a) of
        Inl e \<Rightarrow> stack_exists_handler ev a None e tr1
      | Inr parameters \<Rightarrow>
          (let tr2 = log DEBUG (''Validating template '' @ [CHR 0x27] @ ''%s'' @ [CHR 0x27])
                       [AStr (template_path a)] tr1;
               tr3 = tr2 @ [ValidateTemplate (template_path a)] in
           case validate_template ev (template_path a) of
             Inl e \<Rightarrow> stack_exists_handler ev a (Some parameters) e tr3
           | Inr ok \<Rightarrow>
               (let tr4 = tr3 @ [CreateStack (stack_name a) (template_path a) parameters] in
                case create_stack ev (stack_name a) (template_path a) parameters of
                  Inl e \<Rightarrow> stack_exists_handler ev a (Some parameters) e tr4
                | Inr stack_id \<Rightarrow>
                    (log INFO ''Stack created. ID: %s'' [AStr stack_id] tr4, Inr ()))))"

text \<open>
  The third block:
  \<^verbatim>\<open>
  try:
      role_data = roles.look_up_role(role_name)
      trust_role_arn = role_data['Role']['Arn']
      __logger__.debug("Role Found: %s", trust_role_arn)
  except RoleNotFoundError:
      __logger__.warning("Couldn't find role %s", role_name)
      raise
  \<close>
\<close>

definition role_not_found_handler ::
    "args \<Rightarrow> exn \<Rightarrow> event list \<Rightarrow> event list \<times> (exn + json)" where
  "role_not_found_handler a e tr =
     (if e = RoleNotFoundError then
        (log WARNING (''Couldn'' @ [CHR 0x27] @ ''t find role %s'') [AStr (role_name a)] tr,
         Inl e)
      else (tr, Inl e))"

definition resolve_role :: "env \<Rightarrow> args \<Rightarrow> event list \<Rightarrow> event list \<times> (exn + json)" where
  "resolve_role ev a tr =
     (let tr1 = tr @ [LookUpRole (role_name a)] in
      case look_up_role ev (role_name a) of
        Inl e \<Rightarrow> role_not_found_handler a e tr1
      | Inr role_data \<Rightarrow>
          (case py_getitem role_data ''Role'' of
             Inl e \<Rightarrow> role_not_found_handler a e tr1
           | Inr role \<Rightarrow>
               (case py_getitem role ''Arn'' of
                  Inl e \<Rightarrow> role_not_found_handler a e tr1
                | Inr trust_role_arn \<Rightarrow>
                    (log DEBUG ''Role Found: %s'' [AJson trust_role_arn] tr1,
                     Inr trust_role_arn))))"

section \<open>Serialising the manifest: \<^verbatim>\<open>json.dumps(blob, sort_keys=True, indent=4)\<close>\<close>

text \<open>
  The encoder of Python 3's \<^verbatim>\<open>json\<close> module with \<^verbatim>\<open>ensure_ascii\<close> on. A string is
  put in double quotes; a backslash, a double quote and the characters outside the
  printable ASCII range are escaped.
\<close>

definition hex_digit :: "nat \<Rightarrow> char" where
  "hex_digit n = ''0123456789abcdef'' ! (n mod 16)"

definition escape_char :: "char \<Rightarrow> string" where
  "escape_char c =
     (if c = CHR 0x5C then [CHR 0x5C, CHR 0x5C]
      else if c = CHR 0x22 then [CHR 0x5C, CHR 0x22]
      else if c = CHR 0x08 then [CHR 0x5C, CHR ''b'']
      else if c = CHR 0x0C then [CHR 0x5C, CHR ''f'']
      else if c = CHR 0x0A then [CHR 0x5C, CHR ''n'']
      else if c = CHR 0x0D then [CHR 0x5C, CHR ''r'']
      else if c = CHR 0x09 then [CHR 0x5C, CHR ''t'']
      else if (32::nat) \<le> of_char c \<and> (of_char c :: nat) \<le> 126 then [c]
      else [CHR 0x5C, CHR ''u'', CHR ''0'', CHR ''0'',
            hex_digit (of_char c div 16), hex_digit (of_char c)])"

definition encode_basestring_ascii :: "string \<Rightarrow> string" where
  "encode_basestring_ascii s = [CHR 0x22] @ concat (map escape_char s) @ [CHR 0x22]"

text \<open>\<^verbatim>\<open>int.__repr__\<close>: decimal digits, with a minus sign for a negative number.\<close>

function natstr :: "nat \<Rightarrow> string" where
  "natstr n = (if n < 10 then [hex_digit n] else natstr (n div 10) @ [hex_digit (n mod 10)])"
  by pat_completeness auto
termination
  by (relation "measure id") auto

definition intstr :: "int \<Rightarrow> string" where
  "intstr i = (if i < 0 then CHR ''-'' # natstr (nat (- i)) else natstr (nat i))"

text \<open>\<^verbatim>\<open>'\n' + ' ' * (4 * level)\<close>, and \<^verbatim>\<open>sep.join(parts)\<close>.\<close>

definition newline_indent :: "nat \<Rightarrow> string" where
  "newline_indent lvl = CHR 0x0A # replicate (4 * lvl) CHR '' ''"

fun join :: "string \<Rightarrow> string list \<Rightarrow> string" where
  "join sep [] = []"
| "join sep [x] = x"
| "join sep (x # y # ys) = x @ sep @ join sep (y # ys)"

text \<open>
  \<^verbatim>\<open>sorted(dct.items())\<close>: the items of a \<^verbatim>\<open>dict\<close> in the order of their keys.
  Python compares strings code point by code point, which is the lexicographic order
  on \<open>string\<close>.
\<close>

definition sorted_items :: "(string \<times> json) list \<Rightarrow> (string \<times> json) list" where
  "sorted_items kvs = sort_key fst kvs"

text \<open>
  The encoder at nesting depth \<open>lvl\<close>. An empty list or object is written without a
  line break. Otherwise every item starts on a line of its own, indented by four
  spaces per level, items are separated by a comma, and the key of an object is
  followed by a colon and a space.
\<close>

function json_encode :: "nat \<Rightarrow> json \<Rightarrow> string" where
  "json_encode lvl JNull = ''null''"
| "json_encode lvl (JBool b) = (if b then ''true'' else ''false'')"
| "json_encode lvl (JInt i) = intstr i"
| "json_encode lvl (JStr s) = encode_basestring_ascii s"
| "json_encode lvl (JArr xs) =
     (if xs = [] then ''[]''
      else ''['' @ newline_indent (Suc lvl)
           @ join ('','' @ newline_indent (Suc lvl)) (map (json_encode (Suc lvl)) xs)
           @ newline_indent lvl @ '']'')"
| "json_encode lvl (JObj kvs) =
     (if kvs = [] then ''{}''
      else ''{'' @ newline_indent (Suc lvl)
           @ join ('','' @ newline_indent (Suc lvl))
               (map (\<lambda>(k, v). encode_basestring_ascii k @ '': '' @ json_encode (Suc lvl) v)
                  (sorted_items kvs))
           @ newline_indent lvl @ ''}'')"
  by pat_completeness auto
termination
proof (relation "measure (\<lambda>(lvl, j). size j)")
  fix lvl :: nat and kvs :: "(string \<times> json) list" and x :: "string \<times> json"
    and k :: string and v :: json
  assume "x \<in> set (sorted_items kvs)" and "(k, v) = x"
  then have "(k, v) \<in> set kvs"
    by (simp add: sorted_items_def)
  then have "size v < Suc (size_list (size_prod (\<lambda>x. 0) size) kvs)"
    by (induction kvs) auto
  then show "((Suc lvl, v), lvl, JObj kvs) \<in> measure (\<lambda>(lvl, j). size j)"
    by simp
qed (auto simp: less_Suc_eq_le size_list_estimation')

definition json_dumps :: "json \<Rightarrow> string" where
  "json_dumps obj = json_encode 0 obj"

section \<open>The manifest\<close>

text \<open>
  Modelled from the spec: \<^verbatim>\<open>approles.generate_ad_role\<close> is defined in
  \<^verbatim>\<open>provisioner/ad_helpers\<close>, which is not among the sources. The design describes
  it as the pure function \<^verbatim>\<open>build(roleName, roleDescription, trustReference,
  providerReference)\<close> whose result holds those four fields.
\<close>

definition generate_ad_role :: "string \<Rightarrow> string \<Rightarrow> json \<Rightarrow> string \<Rightarrow> json" where
  "generate_ad_role name description trust_role_arn saml_provider_arn =
     JObj [(''roleName'', JStr name),
           (''roleDescription'', JStr description),
           (''trustReference'', trust_role_arn),
           (''providerReference'', JStr saml_provider_arn)]"

text \<open>The format string \<^verbatim>\<open>"\n%s"\<close> of the record that carries the manifest.\<close>

definition manifest_format :: string where
  "manifest_format = [CHR 0x0A] @ ''%s''"

text \<open>
  The last block:
  \<^verbatim>\<open>
  approles_blob = approles.generate_ad_role(args.role_name, args.role_description,
                                            trust_role_arn, saml_provider_arn)
  __logger__.debug("appRoles json generated:")
  __logger__.info("\n%s", json.dumps(approles_blob, sort_keys=True, indent=4))
  \<close>
\<close>

definition emit_manifest :: "args \<Rightarrow> json \<Rightarrow> string \<Rightarrow> event list \<Rightarrow> event list" where
  "emit_manifest a trust_role_arn saml_provider_arn tr =
     (let tr1 = tr @ [GenerateAdRole (role_name a) (role_description a)
                        trust_role_arn saml_provider_arn];
          approles_blob = generate_ad_role (role_name a) (role_description a)
                            trust_role_arn saml_provider_arn;
          tr2 = log DEBUG ''appRoles json generated:'' [] tr1
      in log INFO manifest_format [AStr (json_dumps approles_blob)] tr2)"

text \<open>
  \<^verbatim>\<open>main(args)\<close>: the four blocks in sequence, each preceded by its INFO record. The
  result is the trace of the run with either the exception that left \<^verbatim>\<open>main\<close> or
  the unit value of a normal return.
\<close>

definition main :: "env \<Rightarrow> args \<Rightarrow> event list \<times> (exn + unit)" where
  "main ev a =
     (case register_provider ev a (log INFO ''Adding SAML provider to Account...'' [] []) of
        (tr1, Inl e) \<Rightarrow> (tr1, Inl e)
      | (tr1, Inr saml_provider_arn) \<Rightarrow>
     (case reconcile_stack ev a saml_provider_arn
             (log INFO ''Adding Role to account...'' [] tr1) of
        (tr2, Inl e) \<Rightarrow> (tr2, Inl e)
      | (tr2, Inr ok) \<Rightarrow>
     (case resolve_role ev a (log INFO ''Looking up role ARN...'' [] tr2) of
        (tr3, Inl e) \<Rightarrow> (tr3, Inl e)
      | (tr3, Inr trust_role_arn) \<Rightarrow>
          (emit_manifest a trust_role_arn saml_provider_arn
             (log INFO ''Generating appRoles JSON blob...'' [] tr3),
           Inr ()))))"

section \<open>The command line\<close>

text \<open>
  One \<^verbatim>\<open>add_argument\<close> call: the option string, the destination, whether
  \<^verbatim>\<open>required=True\<close> is given, and the \<^verbatim>\<open>default=\<close> when one is given.
\<close>

record argument =
  option_string :: string
  dest :: string
  required :: bool
  default_value :: "string option"

definition parser_arguments :: "argument list" where
  "parser_arguments =
     [\<lparr>option_string = ''-m --saml_metadata'', dest = ''saml_metadata'',
        required = True, default_value = None\<rparr>,
      \<lparr>option_string = ''-t --cfn_template'', dest = ''template_path'',
        required = True, default_value = None\<rparr>,
      \<lparr>option_string = ''-p --cfn_parameters'', dest = ''params_file'',
        required = False, default_value = None\<rparr>,
      \<lparr>option_string = ''-s --stack_name'', dest = ''stack_name'',
        required = False, default_value = Some ''federated-trust-role-and-policy''\<rparr>,
      \<lparr>option_string = ''-i --idp_name'', dest = ''provider_name'',
        required = False, default_value = Some ''new_saml_provider''\<rparr>,
      \<lparr>option_string = ''-r --role_name'', dest = ''role_name'',
        required = False, default_value = Some ''new_saml_role''\<rparr>,
      \<lparr>option_string = ''-d --role_description'', dest = ''role_description'',
        required = False, default_value = Some ''A role created by''\<rparr>]"

text \<open>
  The command line is taken as the map from the destination of each option that is
  present to the string given with it; how \<^verbatim>\<open>argparse\<close> matches the words of
  \<^verbatim>\<open>sys.argv\<close> against option strings is not modelled.

  \<open>attribute\<close> is the value \<^verbatim>\<open>parse_args\<close> stores under a destination: the given
  string, else the declared default, else \<^verbatim>\<open>None\<close>.
\<close>

definition declared_default :: "string \<Rightarrow> string option" where
  "declared_default d =
     (case filter (\<lambda>x. dest x = d) parser_arguments of
        [] \<Rightarrow> None
      | x # xs \<Rightarrow> default_value x)"

definition attribute :: "(string \<rightharpoonup> string) \<Rightarrow> string \<Rightarrow> string option" where
  "attribute given d = (case given d of Some v \<Rightarrow> Some v | None \<Rightarrow> declared_default d)"

text \<open>The required options that are absent, as \<^verbatim>\<open>parse_args\<close> lists them in its error.\<close>

definition missing_required :: "(string \<rightharpoonup> string) \<Rightarrow> string list" where
  "missing_required given =
     map option_string (filter (\<lambda>x. required x \<and> given (dest x) = None) parser_arguments)"

text \<open>
  \<^verbatim>\<open>__parser__.parse_args()\<close>: it refuses the command line (\<open>Inl\<close>, with the missing
  option strings) when a required option is absent, and otherwise returns the
  namespace.
\<close>

definition parse_args :: "(string \<rightharpoonup> string) \<Rightarrow> string list + args" where
  "parse_args given =
     (case missing_required given of
        m # ms \<Rightarrow> Inl (m # ms)
      | [] \<Rightarrow>
          (case (attribute given ''saml_metadata'', attribute given ''template_path'',
                 attribute given ''stack_name'', attribute given ''provider_name'',
                 attribute given ''role_name'', attribute given ''role_description'') of
             (Some m, Some t, Some s, Some i, Some r, Some d) \<Rightarrow>
               Inr \<lparr>saml_metadata = m, template_path = t,
                    params_file = attribute given ''params_file'',
                    stack_name = s, provider_name = i, role_name = r,
                    role_description = d\<rparr>
           | _ \<Rightarrow> Inl []))"

text \<open>The script run from the command line: \<^verbatim>\<open>main(__parser__.parse_args())\<close>.\<close>

definition script :: "env \<Rightarrow> (string \<rightharpoonup> string) \<Rightarrow> (string list + event list \<times> (exn + unit))" where
  "script ev given =
     (case parse_args given of
        Inl missing \<Rightarrow> Inl missing
      | Inr a \<Rightarrow> Inr (main ev a))"

section \<open>Observations on a trace\<close>

text \<open>The record that carries the manifest, and the text it carries.\<close>

fun is_manifest :: "event \<Rightarrow> bool" where
  "is_manifest (Log lvl msg as) = (lvl = INFO \<and> msg = manifest_format)"
| "is_manifest ev = False"

definition manifest_emitted :: "event list \<Rightarrow> bool" where
  "manifest_emitted tr = list_ex is_manifest tr"

definition manifests :: "event list \<Rightarrow> logarg list list" where
  "manifests tr = [as. Log lvl msg as \<leftarrow> tr, lvl = INFO \<and> msg = manifest_format]"

text \<open>The calls that change a stack.\<close>

fun is_create :: "event \<Rightarrow> bool" where
  "is_create (CreateStack n t ps) = True"
| "is_create ev = False"

fun is_update :: "event \<Rightarrow> bool" where
  "is_update (UpdateStack n t ps) = True"
| "is_update ev = False"

definition is_mutation :: "event \<Rightarrow> bool" where
  "is_mutation ev = (is_create ev \<or> is_update ev)"

text \<open>Reading a parameter entry: its key when that is a string, and its value.\<close>

fun entry_key :: "json \<Rightarrow> string option" where
  "entry_key (JObj kvs) =
     (case map_of kvs ''ParameterKey'' of Some (JStr k) \<Rightarrow> Some k | _ \<Rightarrow> None)"
| "entry_key j = None"

fun entry_value :: "json \<Rightarrow> json option" where
  "entry_value (JObj kvs) = map_of kvs ''ParameterValue''"
| "entry_value j = None"

text \<open>
  What binding does to one well-formed entry, written down separately from the code:
  \<open>with_value\<close> replaces the value of an entry, and \<open>bound_entry\<close> picks the
  override by the markers found in the key \<open>k\<close>, the role name winning over the
  provider reference.
\<close>

fun with_value :: "json \<Rightarrow> json \<Rightarrow> json" where
  "with_value x (JObj kvs) = JObj (dict_set ''ParameterValue'' x kvs)"
| "with_value x j = j"

definition bound_entry :: "string \<Rightarrow> string \<Rightarrow> string \<Rightarrow> json \<Rightarrow> json" where
  "bound_entry p r k e =
     (if is_substring ''RoleName'' k then with_value (JStr r) e
      else if is_substring ''SAMLProviderARN'' k then with_value (JStr p) e
      else e)"

section \<open>Example accounts and command lines\<close>

text \<open>
  Concrete inputs on which the theorems below are instantiated. \<open>demo_env\<close> is an
  account that is already provisioned: the provider exists, the stack exists and needs
  no update, and the role \<^verbatim>\<open>new_saml_role\<close> is there. \<open>fresh_env\<close> is an empty
  account, and \<open>invalid_env\<close> an account in which the template is rejected.
\<close>

definition demo_template :: "json list" where
  "demo_template =
     [JObj [(''ParameterKey'', JStr ''SAMLProviderARN''), (''ParameterValue'', JStr ''unset'')],
      JObj [(''ParameterKey'', JStr ''RoleName''), (''ParameterValue'', JStr ''unset'')],
      JObj [(''ParameterKey'', JStr ''Environment''), (''ParameterValue'', JStr ''production'')]]"

definition demo_role :: json where
  "demo_role = JObj [(''Role'', JObj [(''Arn'', JStr ''arn:aws:iam::1:role/new_saml_role'')])]"

definition demo_env :: env where
  "demo_env =
     \<lparr>add_saml_provider = (\<lambda>m n. Inl SAMLProviderExistsError),
      look_up_saml_provider = (\<lambda>n. Inr ''arn:aws:iam::1:saml-provider/idp''),
      read_file = (\<lambda>path. if path = ''params.json'' then Parsed (JArr demo_template)
                           else if path = ''broken.json''
                           then Parsed (JArr [JObj [(''ParameterValue'', JStr ''x'')]])
                           else NoSuchFile),
      validate_template = (\<lambda>t. Inr ()),
      create_stack = (\<lambda>n t ps. Inl StackExistsError),
      update_stack = (\<lambda>n t ps. Inl NoUpdateToPerformError),
      look_up_role = (\<lambda>r. if r = ''new_saml_role'' then Inr demo_role
                            else Inl RoleNotFoundError)\<rparr>"

definition demo_args :: args where
  "demo_args =
     \<lparr>saml_metadata = ''metadata.xml'', template_path = ''template.yaml'',
      params_file = Some ''params.json'', stack_name = ''federated-trust-role-and-policy'',
      provider_name = ''new_saml_provider'', role_name = ''new_saml_role'',
      role_description = ''A role created by''\<rparr>"

definition demo_bound :: json where
  "demo_bound =
     JArr [JObj [(''ParameterKey'', JStr ''SAMLProviderARN''),
                 (''ParameterValue'', JStr ''arn:aws:iam::1:saml-provider/idp'')],
           JObj [(''ParameterKey'', JStr ''RoleName''),
                 (''ParameterValue'', JStr ''new_saml_role'')],
           JObj [(''ParameterKey'', JStr ''Environment''),
                 (''ParameterValue'', JStr ''production'')]]"

definition demo_trace :: "event list" where
  "demo_trace =
     [Log INFO ''Adding SAML provider to Account...'' [],
      AddSamlProvider ''metadata.xml'' ''new_saml_provider'',
      Log INFO ''SAML provider %s already exists. Looking up ARN...''
        [AStr ''new_saml_provider''],
      LookUpSamlProvider ''new_saml_provider'',
      Log INFO ''Adding Role to account...'' [],
      ProcessParams (Some ''params.json'') ''arn:aws:iam::1:saml-provider/idp''
        ''new_saml_role'',
      ValidateTemplate ''template.yaml'',
      CreateStack ''federated-trust-role-and-policy'' ''template.yaml'' demo_bound,
      Log INFO ''Stack %s already exists. Updating stack instead.''
        [AStr ''federated-trust-role-and-policy''],
      UpdateStack ''federated-trust-role-and-policy'' ''template.yaml'' demo_bound,
      Log INFO ''Looking up role ARN...'' [],
      LookUpRole ''new_saml_role'',
      Log INFO ''Generating appRoles JSON blob...'' [],
      GenerateAdRole ''new_saml_role'' ''A role created by''
        (JStr ''arn:aws:iam::1:role/new_saml_role'') ''arn:aws:iam::1:saml-provider/idp'',
      Log INFO manifest_format
        [AStr (json_dumps (generate_ad_role ''new_saml_role'' ''A role created by''
           (JStr ''arn:aws:iam::1:role/new_saml_role'')
           ''arn:aws:iam::1:saml-provider/idp''))]]"





definition absent_args :: args where
  "absent_args = demo_args\<lparr>role_name := ''absent_role''\<rparr>"

definition absent_bound :: json where
  "absent_bound =
     JArr [JObj [(''ParameterKey'', JStr ''SAMLProviderARN''),
                 (''ParameterValue'', JStr ''arn:aws:iam::1:saml-provider/idp'')],
           JObj [(''ParameterKey'', JStr ''RoleName''),
                 (''ParameterValue'', JStr ''absent_role'')],
           JObj [(''ParameterKey'', JStr ''Environment''),
                 (''ParameterValue'', JStr ''production'')]]"

definition absent_trace :: "event list" where
  "absent_trace =
     [Log INFO ''Adding SAML provider to Account...'' [],
      AddSamlProvider ''metadata.xml'' ''new_saml_provider'',
      Log INFO ''SAML provider %s already exists. Looking up ARN...''
        [AStr ''new_saml_provider''],
      LookUpSamlProvider ''new_saml_provider'',
      Log INFO ''Adding Role to account...'' [],
      ProcessParams (Some ''params.json'') ''arn:aws:iam::1:saml-provider/idp''
        ''absent_role'',
      ValidateTemplate ''template.yaml'',
      CreateStack ''federated-trust-role-and-policy'' ''template.yaml'' absent_bound,
      Log INFO ''Stack %s already exists. Updating stack instead.''
        [AStr ''federated-trust-role-and-policy''],
      UpdateStack ''federated-trust-role-and-policy'' ''template.yaml'' absent_bound,
      Log INFO ''Looking up role ARN...'' [],
      LookUpRole ''absent_role'',
      Log WARNING (''Couldn'' @ [CHR 0x27] @ ''t find role %s'') [AStr ''absent_role'']]"

definition broken_args :: args where
  "broken_args = demo_args\<lparr>params_file := Some ''broken.json''\<rparr>"

definition broken_trace :: "event list" where
  "broken_trace =
     [Log INFO ''Adding SAML provider to Account...'' [],
      AddSamlProvider ''metadata.xml'' ''new_saml_provider'',
      Log INFO ''SAML provider %s already exists. Looking up ARN...''
        [AStr ''new_saml_provider''],
      LookUpSamlProvider ''new_saml_provider'',
      Log INFO ''Adding Role to account...'' [],
      ProcessParams (Some ''broken.json'') ''arn:aws:iam::1:saml-provider/idp''
        ''new_saml_role'']"



section \<open>Properties of the Python operations\<close>

lemma is_substring_sublist: "is_substring n h \<longleftrightarrow> sublist n h"
  by (induction h) (auto simp: sublist_Cons_right)

lemma map_of_dict_set_same: "map_of (dict_set k x kvs) k = Some x"
  by (induction kvs) auto

lemma map_of_dict_set_other: "k' \<noteq> k \<Longrightarrow> map_of (dict_set k x kvs) k' = map_of kvs k'"
  by (induction kvs) auto

lemma dict_set_twice: "dict_set k y (dict_set k x kvs) = dict_set k y kvs"
  by (induction kvs) auto

lemma entry_key_SomeD:
  "entry_key e = Some k \<Longrightarrow> \<exists>kvs. e = JObj kvs \<and> map_of kvs ''ParameterKey'' = Some (JStr k)"
  by (cases e) (auto split: option.splits json.splits)

lemma entry_key_with_value: "entry_key (with_value x e) = entry_key e"
  by (cases e) (simp_all add: map_of_dict_set_other)

lemma entry_value_with_value: "entry_key e = Some k \<Longrightarrow> entry_value (with_value x e) = Some x"
  by (cases e) (simp_all add: map_of_dict_set_same)

lemma entry_key_bound_entry: "entry_key (bound_entry p r k e) = entry_key e"
  by (simp add: bound_entry_def entry_key_with_value)

lemma py_getitem_with_value:
  "f \<noteq> ''ParameterValue'' \<Longrightarrow> py_getitem (with_value x e) f = py_getitem e f"
  by (cases e) (simp_all add: map_of_dict_set_other)

lemma py_getitem_bound_entry:
  "f \<noteq> ''ParameterValue'' \<Longrightarrow> py_getitem (bound_entry p r k e) f = py_getitem e f"
  by (simp add: bound_entry_def py_getitem_with_value)

lemma py_getitem_error: "py_getitem v k = Inl x \<Longrightarrow> x = KeyError k \<or> x = TypeError"
  by (cases v) (auto split: option.splits)

lemma py_contains_error: "py_contains n v = Inl x \<Longrightarrow> x = TypeError"
  by (cases v) auto

lemma py_getitem_InrD: "py_getitem v k = Inr y \<Longrightarrow> \<exists>kvs. v = JObj kvs \<and> map_of kvs k = Some y"
  by (cases v) (auto split: option.splits)

section \<open>Properties of the parameter binding\<close>

lemma process_param_entry:
  assumes "entry_key e = Some k"
  shows "process_param p r e = Inr (bound_entry p r k e)"
proof -
  from assms obtain kvs where e: "e = JObj kvs"
    and k: "map_of kvs ''ParameterKey'' = Some (JStr k)"
    using entry_key_SomeD by blast
  show ?thesis
    by (simp add: e k process_param_def bound_entry_def map_of_dict_set_other dict_set_twice)
qed

lemma process_list_entries:
  assumes "\<forall>e \<in> set T. entry_key e \<noteq> None"
  shows "process_list p r T = Inr (map (\<lambda>e. bound_entry p r (the (entry_key e)) e) T)"
  using assms
proof (induction T)
  case Nil
  then show ?case by simp
next
  case (Cons e T)
  then obtain k where "entry_key e = Some k" by auto
  with Cons show ?case by (simp add: process_param_entry)
qed

lemma process_param_missing_key:
  "py_getitem e ''ParameterKey'' = Inl err \<Longrightarrow> process_param p r e = Inl err"
  by (simp add: process_param_def)

lemma process_param_obj:
  assumes "map_of kvs ''ParameterKey'' = Some k1"
  shows "process_param p r (JObj kvs) =
     (case py_contains ''SAMLProviderARN'' k1 of
        Inl e \<Rightarrow> Inl e
      | Inr b1 \<Rightarrow>
          (case py_contains ''RoleName'' k1 of
             Inl e \<Rightarrow> Inl e
           | Inr b2 \<Rightarrow>
               Inr (if b2 then with_value (JStr r) (JObj kvs)
                    else if b1 then with_value (JStr p) (JObj kvs) else JObj kvs)))"
  using assms
  by (simp add: process_param_def map_of_dict_set_other dict_set_twice split: sum.splits)

lemma process_param_result:
  assumes "process_param p r e = Inr e'"
  shows "\<exists>kvs k1 b1 b2. e = JObj kvs \<and> map_of kvs ''ParameterKey'' = Some k1
           \<and> py_contains ''SAMLProviderARN'' k1 = Inr b1
           \<and> py_contains ''RoleName'' k1 = Inr b2
           \<and> e' = (if b2 then with_value (JStr r) e
                   else if b1 then with_value (JStr p) e else e)"
proof -
  from assms obtain k1 where "py_getitem e ''ParameterKey'' = Inr k1"
    by (cases "py_getitem e ''ParameterKey''") (simp_all add: process_param_def)
  then obtain kvs where e: "e = JObj kvs" and k1: "map_of kvs ''ParameterKey'' = Some k1"
    using py_getitem_InrD by blast
  from assms obtain b1 where b1: "py_contains ''SAMLProviderARN'' k1 = Inr b1"
    unfolding e process_param_obj [OF k1]
    by (cases "py_contains ''SAMLProviderARN'' k1") simp_all
  from assms obtain b2 where b2: "py_contains ''RoleName'' k1 = Inr b2"
    unfolding e process_param_obj [OF k1] b1
    by (cases "py_contains ''RoleName'' k1") simp_all
  from assms have "e' = (if b2 then with_value (JStr r) e
                   else if b1 then with_value (JStr p) e else e)"
    unfolding e process_param_obj [OF k1] b1 b2 by simp
  with e k1 b1 b2 show ?thesis by blast
qed

lemma process_param_error:
  assumes "process_param p r e = Inl x"
  shows "x = KeyError ''ParameterKey'' \<or> x = TypeError"
proof (cases "py_getitem e ''ParameterKey''")
  case (Inl err)
  with assms show ?thesis
    using py_getitem_error [OF Inl] by (simp add: process_param_def)
next
  case (Inr k1)
  then obtain kvs where e: "e = JObj kvs" and k1: "map_of kvs ''ParameterKey'' = Some k1"
    using py_getitem_InrD by blast
  from assms have "py_contains ''SAMLProviderARN'' k1 = Inl x
       \<or> py_contains ''RoleName'' k1 = Inl x"
    unfolding e process_param_obj [OF k1]
    by (simp split: sum.splits)
  then show ?thesis
    using py_contains_error by blast
qed

lemma process_list_error:
  "process_list p r T = Inl x \<Longrightarrow> x = KeyError ''ParameterKey'' \<or> x = TypeError"
  by (induction T arbitrary: x) (auto split: sum.splits dest: process_param_error)

lemma process_list_missing_key:
  assumes "e \<in> set T" and "py_getitem e ''ParameterKey'' = Inl err"
  shows "\<exists>x. process_list p r T = Inl x"
  using assms
  by (induction T) (auto split: sum.splits simp: process_param_missing_key)

lemma process_list_role_name:
  assumes "process_list p r T = Inr T'" and "e' \<in> set T'"
    and "entry_key e' = Some k" and "is_substring ''RoleName'' k"
  shows "entry_value e' = Some (JStr r)"
  using assms
proof (induction T arbitrary: T')
  case Nil
  then show ?case by simp
next
  case (Cons e T)
  from Cons.prems(1) obtain e1 T1 where e1: "process_param p r e = Inr e1"
    and T1: "process_list p r T = Inr T1" and T': "T' = e1 # T1"
    by (auto split: sum.splits)
  show ?case
  proof (cases "e' = e1")
    case True
    from process_param_result [OF e1] obtain kvs k1 b1 b2
      where e: "e = JObj kvs" and k1: "map_of kvs ''ParameterKey'' = Some k1"
        and b2: "py_contains ''RoleName'' k1 = Inr b2"
        and shape: "e1 = (if b2 then with_value (JStr r) e
                   else if b1 then with_value (JStr p) e else e)"
      by blast
    from shape have "entry_key e1 = entry_key e"
      by (simp add: entry_key_with_value)
    with Cons.prems(3) True have key: "entry_key e = Some k"
      by simp
    then have "k1 = JStr k"
      using e k1 by (auto split: json.splits)
    with b2 Cons.prems(4) have "b2" by simp
    with shape have "e1 = with_value (JStr r) e" by simp
    with key True show ?thesis
      by (simp add: entry_value_with_value)
  next
    case False
    with Cons.prems(2) T' have "e' \<in> set T1" by simp
    from Cons.IH [OF T1 this Cons.prems(3,4)] show ?thesis .
  qed
qed

lemma process_params_role_name:
  assumes "process_params ev pf p r = Inr (JArr T')" and "e' \<in> set T'"
    and "entry_key e' = Some k" and "is_substring ''RoleName'' k"
  shows "entry_value e' = Some (JStr r)"
proof -
  from assms(1) obtain j where j: "process_json p r j = Inr (JArr T')"
    by (auto simp: process_params_def split: sum.splits)
  then obtain T where "process_list p r T = Inr T'"
    by (cases j) (auto split: sum.splits if_splits)
  from process_list_role_name [OF this assms(2-4)] show ?thesis .
qed

section \<open>Properties of the orchestrator\<close>

subsection \<open>Logging\<close>

lemma log_INFO: "log INFO msg as tr = tr @ [Log INFO msg as]"
  by (simp add: log_def)

lemma log_WARNING: "log WARNING msg as tr = tr @ [Log WARNING msg as]"
  by (simp add: log_def)

lemma log_DEBUG: "log DEBUG msg as tr = tr"
  by (simp add: log_def)

lemmas log_simps = log_INFO log_WARNING log_DEBUG

subsection \<open>Every block only appends to the trace\<close>

lemma register_provider_append:
  "register_provider ev a tr =
     (tr @ fst (register_provider ev a []), snd (register_provider ev a []))"
  by (simp add: register_provider_def log_simps Let_def split: sum.splits)

lemma stack_exists_handler_append:
  "stack_exists_handler ev a ps e tr =
     (tr @ fst (stack_exists_handler ev a ps e []), snd (stack_exists_handler ev a ps e []))"
  by (simp add: stack_exists_handler_def log_simps Let_def split: sum.splits option.splits)

lemma reconcile_stack_append:
  "reconcile_stack ev a arn tr =
     (tr @ fst (reconcile_stack ev a arn []), snd (reconcile_stack ev a arn []))"
  unfolding reconcile_stack_def Let_def log_simps
  by (subst (1 2 3) stack_exists_handler_append)
     (simp split: sum.splits add: stack_exists_handler_append [of _ _ _ _ "[_]"]
        stack_exists_handler_append [of _ _ _ _ "[_,_]"] stack_exists_handler_append [of _ _ _ _ "[_,_,_]"])

lemma resolve_role_append:
  "resolve_role ev a tr = (tr @ fst (resolve_role ev a []), snd (resolve_role ev a []))"
  by (simp add: resolve_role_def role_not_found_handler_def log_simps Let_def split: sum.splits)

lemma emit_manifest_eq:
  "emit_manifest a trust arn tr =
     tr @ [GenerateAdRole (role_name a) (role_description a) trust arn,
           Log INFO manifest_format
             [AStr (json_dumps (generate_ad_role (role_name a) (role_description a) trust arn))]]"
  by (simp add: emit_manifest_def log_simps Let_def)

subsection \<open>The four ways a run can end\<close>

lemma main_unfold:
  "main ev a =
     (case snd (register_provider ev a []) of
        Inl e \<Rightarrow>
          (Log INFO ''Adding SAML provider to Account...'' [] # fst (register_provider ev a []),
           Inl e)
      | Inr arn \<Rightarrow>
     (case snd (reconcile_stack ev a arn []) of
        Inl e \<Rightarrow>
          (Log INFO ''Adding SAML provider to Account...'' [] # fst (register_provider ev a [])
             @ Log INFO ''Adding Role to account...'' [] # fst (reconcile_stack ev a arn []),
           Inl e)
      | Inr ok \<Rightarrow>
     (case snd (resolve_role ev a []) of
        Inl e \<Rightarrow>
          (Log INFO ''Adding SAML provider to Account...'' [] # fst (register_provider ev a [])
             @ Log INFO ''Adding Role to account...'' [] # fst (reconcile_stack ev a arn [])
             @ Log INFO ''Looking up role ARN...'' [] # fst (resolve_role ev a []),
           Inl e)
      | Inr trust \<Rightarrow>
          (Log INFO ''Adding SAML provider to Account...'' [] # fst (register_provider ev a [])
             @ Log INFO ''Adding Role to account...'' [] # fst (reconcile_stack ev a arn [])
             @ Log INFO ''Looking up role ARN...'' [] # fst (resolve_role ev a [])
             @ [Log INFO ''Generating appRoles JSON blob...'' [],
                GenerateAdRole (role_name a) (role_description a) trust arn,
                Log INFO manifest_format
                  [AStr (json_dumps
                     (generate_ad_role (role_name a) (role_description a) trust arn))]],
           Inr ()))))"
  unfolding main_def log_INFO emit_manifest_eq
  by (simp add: register_provider_append [where tr = "x # xs" for x xs]
        reconcile_stack_append [where tr = "x # xs" for x xs]
        resolve_role_append [where tr = "x # xs" for x xs]
      split: sum.splits)

lemma main_cases [consumes 1, case_names provider_failed stack_failed role_failed finished]:
  assumes "main ev a = (tr, res)"
  obtains
    e where "snd (register_provider ev a []) = Inl e" and "res = Inl e"
      and "tr = Log INFO ''Adding SAML provider to Account...'' []
                  # fst (register_provider ev a [])"
  | arn e where "snd (register_provider ev a []) = Inr arn"
      and "snd (reconcile_stack ev a arn []) = Inl e" and "res = Inl e"
      and "tr = Log INFO ''Adding SAML provider to Account...'' []
                  # fst (register_provider ev a [])
                  @ Log INFO ''Adding Role to account...'' []
                  # fst (reconcile_stack ev a arn [])"
  | arn e where "snd (register_provider ev a []) = Inr arn"
      and "snd (reconcile_stack ev a arn []) = Inr ()"
      and "snd (resolve_role ev a []) = Inl e" and "res = Inl e"
      and "tr = Log INFO ''Adding SAML provider to Account...'' []
                  # fst (register_provider ev a [])
                  @ Log INFO ''Adding Role to account...'' []
                  # fst (reconcile_stack ev a arn [])
                  @ Log INFO ''Looking up role ARN...'' []
                  # fst (resolve_role ev a [])"
  | arn trust where "snd (register_provider ev a []) = Inr arn"
      and "snd (reconcile_stack ev a arn []) = Inr ()"
      and "snd (resolve_role ev a []) = Inr trust" and "res = Inr ()"
      and "tr = Log INFO ''Adding SAML provider to Account...'' []
                  # fst (register_provider ev a [])
                  @ Log INFO ''Adding Role to account...'' []
                  # fst (reconcile_stack ev a arn [])
                  @ Log INFO ''Looking up role ARN...'' []
                  # fst (resolve_role ev a [])
                  @ [Log INFO ''Generating appRoles JSON blob...'' [],
                     GenerateAdRole (role_name a) (role_description a) trust arn,
                     Log INFO manifest_format
                       [AStr (json_dumps
                          (generate_ad_role (role_name a) (role_description a) trust arn))]]"
proof (cases "snd (register_provider ev a [])")
  case (Inl e)
  with assms show thesis
    by (intro that(1) [of e]) (simp_all add: main_unfold)
next
  case R1: (Inr arn)
  show thesis
  proof (cases "snd (reconcile_stack ev a arn [])")
    case (Inl e)
    with assms R1 show thesis
      by (intro that(2) [of arn e]) (simp_all add: main_unfold)
  next
    case R2: (Inr ok)
    show thesis
    proof (cases "snd (resolve_role ev a [])")
      case (Inl e)
      with assms R1 R2 show thesis
        by (intro that(3) [of arn e]) (simp_all add: main_unfold)
    next
      case (Inr trust)
      with assms R1 R2 show thesis
        by (intro that(4) [of arn trust]) (simp_all add: main_unfold)
    qed
  qed
qed

subsection \<open>What each block can put on the trace\<close>

lemma register_provider_events:
  assumes "x \<in> set (fst (register_provider ev a []))"
  shows "x = AddSamlProvider (saml_metadata a) (provider_name a)
       \<or> x = Log INFO ''SAML provider %s already exists. Looking up ARN...''
               [AStr (provider_name a)]
       \<or> x = LookUpSamlProvider (provider_name a)"
  using assms
  by (auto simp: register_provider_def log_simps Let_def split: sum.splits if_splits)

lemma reconcile_stack_events:
  assumes "x \<in> set (fst (reconcile_stack ev a arn []))"
  shows "x = ProcessParams (params_file a) arn (role_name a)
       \<or> x = ValidateTemplate (template_path a)
       \<or> x = Log INFO ''Stack %s already exists. Updating stack instead.'' [AStr (stack_name a)]
       \<or> (\<exists>stack_id. x = Log INFO ''Stack created. ID: %s'' [AStr stack_id])
       \<or> (\<exists>ps. process_params ev (params_file a) arn (role_name a) = Inr ps
              \<and> (x = CreateStack (stack_name a) (template_path a) ps
                 \<or> x = UpdateStack (stack_name a) (template_path a) ps))"
  using assms
  by (auto simp: reconcile_stack_def stack_exists_handler_def log_simps Let_def
      split: sum.splits if_splits option.splits)

lemma resolve_role_events:
  assumes "x \<in> set (fst (resolve_role ev a []))"
  shows "x = LookUpRole (role_name a)
       \<or> x = Log WARNING (''Couldn'' @ [CHR 0x27] @ ''t find role %s'') [AStr (role_name a)]"
  using assms
  by (auto simp: resolve_role_def role_not_found_handler_def log_simps Let_def
      split: sum.splits if_splits)

lemma register_provider_no_manifest:
  "x \<in> set (fst (register_provider ev a [])) \<Longrightarrow> \<not> is_manifest x"
  by (drule register_provider_events) (auto simp: manifest_format_def)

lemma reconcile_stack_no_manifest:
  "x \<in> set (fst (reconcile_stack ev a arn [])) \<Longrightarrow> \<not> is_manifest x"
  by (drule reconcile_stack_events) (auto simp: manifest_format_def)

lemma resolve_role_no_manifest:
  "x \<in> set (fst (resolve_role ev a [])) \<Longrightarrow> \<not> is_manifest x"
  by (drule resolve_role_events) (auto simp: manifest_format_def)

lemmas no_manifest = register_provider_no_manifest reconcile_stack_no_manifest
  resolve_role_no_manifest

lemma register_provider_no_role_lookup:
  "LookUpRole r \<notin> set (fst (register_provider ev a []))"
  by (auto dest: register_provider_events)

lemma reconcile_stack_no_role_lookup:
  "LookUpRole r \<notin> set (fst (reconcile_stack ev a arn []))"
  by (auto dest: reconcile_stack_events)




lemma resolve_role_no_validate:
  "ValidateTemplate t \<notin> set (fst (resolve_role ev a []))"
  by (auto dest: resolve_role_events)

lemma reconcile_stack_head:
  "\<exists>rest. fst (reconcile_stack ev a arn [])
            = ProcessParams (params_file a) arn (role_name a) # rest"
  by (simp add: reconcile_stack_def stack_exists_handler_def log_simps Let_def
      split: sum.splits option.splits)

lemma resolve_role_head:
  "\<exists>rest. fst (resolve_role ev a []) = LookUpRole (role_name a) # rest"
  by (simp add: resolve_role_def role_not_found_handler_def log_simps Let_def
      split: sum.splits)

subsection \<open>The outcome of each block on the paths of interest\<close>

lemma register_provider_exists:
  assumes "add_saml_provider ev (saml_metadata a) (provider_name a) = Inl SAMLProviderExistsError"
  shows "register_provider ev a [] =
           ([AddSamlProvider (saml_metadata a) (provider_name a),
             Log INFO ''SAML provider %s already exists. Looking up ARN...''
               [AStr (provider_name a)],
             LookUpSamlProvider (provider_name a)],
            look_up_saml_provider ev (provider_name a))"
  using assms
  by (simp add: register_provider_def log_simps Let_def split: sum.splits)

lemma reconcile_stack_converged:
  assumes "CreateStack n t ps \<in> set (fst (reconcile_stack ev a arn []))"
    and "create_stack ev n t ps = Inl StackExistsError"
    and "update_stack ev n t ps = Inl NoUpdateToPerformError"
  shows "reconcile_stack ev a arn [] =
           ([ProcessParams (params_file a) arn (role_name a),
             ValidateTemplate t,
             CreateStack n t ps,
             Log INFO ''Stack %s already exists. Updating stack instead.'' [AStr n],
             UpdateStack n t ps],
            Inr ())"
  using assms
  by (auto simp: reconcile_stack_def stack_exists_handler_def log_simps Let_def
      split: sum.splits if_splits option.splits)



lemma reconcile_stack_no_validate_when_binding_fails:
  assumes "process_params ev (params_file a) arn (role_name a) = Inl x"
    and "x \<noteq> StackExistsError"
  shows "reconcile_stack ev a arn [] =
           ([ProcessParams (params_file a) arn (role_name a)], Inl x)"
  using assms by (simp add: reconcile_stack_def stack_exists_handler_def)

lemma process_params_missing_key:
  assumes "params_file a = Some path" and "read_file ev path = Parsed (JArr T)"
    and "e \<in> set T" and "py_getitem e ''ParameterKey'' = Inl err"
  shows "\<exists>x. process_params ev (params_file a) arn r = Inl x
           \<and> (x = KeyError ''ParameterKey'' \<or> x = TypeError)"
proof -
  from process_list_missing_key [OF assms(3,4)] obtain x
    where x: "process_list arn r T = Inl x"
    by blast
  then have "process_params ev (params_file a) arn r = Inl x"
    using assms(1,2) by (simp add: process_params_def json_load_def)
  with process_list_error [OF x] show ?thesis by blast
qed

lemma reconcile_stack_ok:
  assumes "snd (reconcile_stack ev a arn []) = Inr ()"
  shows "\<exists>ps. process_params ev (params_file a) arn (role_name a) = Inr ps
           \<and> (CreateStack (stack_name a) (template_path a) ps
                  \<in> set (fst (reconcile_stack ev a arn []))
               \<or> UpdateStack (stack_name a) (template_path a) ps
                  \<in> set (fst (reconcile_stack ev a arn [])))"
  using assms
  by (auto simp: reconcile_stack_def stack_exists_handler_def log_simps Let_def
      split: sum.splits if_splits option.splits)

lemma resolve_role_not_found:
  assumes "look_up_role ev (role_name a) = Inl RoleNotFoundError"
  shows "resolve_role ev a [] =
           ([LookUpRole (role_name a),
             Log WARNING (''Couldn'' @ [CHR 0x27] @ ''t find role %s'') [AStr (role_name a)]],
            Inl RoleNotFoundError)"
  using assms by (simp add: resolve_role_def role_not_found_handler_def log_simps)

lemma resolve_role_found:
  assumes "look_up_role ev (role_name a) = Inr role_data"
    and "py_getitem role_data ''Role'' = Inr role"
    and "py_getitem role ''Arn'' = Inr trust"
  shows "resolve_role ev a [] = ([LookUpRole (role_name a)], Inr trust)"
  using assms by (simp add: resolve_role_def log_simps)

subsection \<open>The manifests on a trace\<close>

lemma manifests_append: "manifests (xs @ ys) = manifests xs @ manifests ys"
  by (simp add: manifests_def)

lemma manifests_Cons:
  "manifests (x # xs) =
     (case x of Log lvl msg as \<Rightarrow> if lvl = INFO \<and> msg = manifest_format then [as] else []
      | _ \<Rightarrow> []) @ manifests xs"
  by (simp add: manifests_def split: event.splits)

lemma manifests_Nil: "manifests [] = []"
  by (simp add: manifests_def)

lemma manifests_none: "(\<And>x. x \<in> set xs \<Longrightarrow> \<not> is_manifest x) \<Longrightarrow> manifests xs = []"
proof (induction xs)
  case Nil
  then show ?case by (simp add: manifests_Nil)
next
  case (Cons x xs)
  then have "\<not> is_manifest x" and "manifests xs = []"
    by simp_all
  then show ?case
    by (cases x) (simp_all add: manifests_Cons)
qed

subsection \<open>Calls on the trace of a whole run\<close>

lemma main_process_params_events:
  assumes "main ev a = (tr, res)" and "ProcessParams pf p r \<in> set tr"
  shows "snd (register_provider ev a []) = Inr p \<and> pf = params_file a \<and> r = role_name a"
  using assms(1)
proof (cases rule: main_cases)
  case (provider_failed e)
  with assms(2) show ?thesis
    by (auto dest: register_provider_events)
next
  case (stack_failed arn e)
  with assms(2) show ?thesis
    by (auto dest: register_provider_events reconcile_stack_events)
next
  case (role_failed arn e)
  with assms(2) show ?thesis
    by (auto dest: register_provider_events reconcile_stack_events resolve_role_events)
next
  case (finished arn trust)
  with assms(2) show ?thesis
    by (auto dest: register_provider_events reconcile_stack_events resolve_role_events)
qed

lemma main_stack_events:
  assumes "main ev a = (tr, res)"
    and "CreateStack sn tp ps \<in> set tr \<or> UpdateStack sn tp ps \<in> set tr"
  shows "\<exists>arn. snd (register_provider ev a []) = Inr arn
           \<and> process_params ev (params_file a) arn (role_name a) = Inr ps
           \<and> sn = stack_name a \<and> tp = template_path a"
  using assms(1)
proof (cases rule: main_cases)
  case (provider_failed e)
  with assms(2) show ?thesis
    by (auto dest: register_provider_events)
next
  case (stack_failed arn e)
  with assms(2) show ?thesis
    by (auto dest: register_provider_events reconcile_stack_events)
next
  case (role_failed arn e)
  with assms(2) show ?thesis
    by (auto dest: register_provider_events reconcile_stack_events resolve_role_events)
next
  case (finished arn trust)
  with assms(2) show ?thesis
    by (auto dest: register_provider_events reconcile_stack_events resolve_role_events)
qed

lemma main_generate_events:
  assumes "main ev a = (tr, res)" and "GenerateAdRole rn rd t p \<in> set tr"
  shows "snd (register_provider ev a []) = Inr p \<and> snd (resolve_role ev a []) = Inr t
       \<and> rn = role_name a \<and> rd = role_description a \<and> res = Inr ()"
  using assms(1)
proof (cases rule: main_cases)
  case (provider_failed e)
  with assms(2) show ?thesis
    by (auto dest: register_provider_events)
next
  case (stack_failed arn e)
  with assms(2) show ?thesis
    by (auto dest: register_provider_events reconcile_stack_events)
next
  case (role_failed arn e)
  with assms(2) show ?thesis
    by (auto dest: register_provider_events reconcile_stack_events resolve_role_events)
next
  case (finished arn trust)
  with assms(2) show ?thesis
    by (auto dest: register_provider_events reconcile_stack_events resolve_role_events)
qed

lemma main_role_lookup_events:
  assumes "main ev a = (tr, res)" and "LookUpRole r \<in> set tr"
  shows "r = role_name a"
  using assms(1)
proof (cases rule: main_cases)
  case (provider_failed e)
  with assms(2) show ?thesis
    by (auto dest: register_provider_events)
next
  case (stack_failed arn e)
  with assms(2) show ?thesis
    by (auto dest: register_provider_events reconcile_stack_events)
next
  case (role_failed arn e)
  with assms(2) show ?thesis
    by (auto dest: register_provider_events reconcile_stack_events resolve_role_events)
next
  case (finished arn trust)
  with assms(2) show ?thesis
    by (auto dest: register_provider_events reconcile_stack_events resolve_role_events)
qed

lemma main_finished:
  assumes "main ev a = (tr, Inr ())"
  shows "\<exists>arn trust.
           snd (register_provider ev a []) = Inr arn
         \<and> snd (reconcile_stack ev a arn []) = Inr ()
         \<and> snd (resolve_role ev a []) = Inr trust
         \<and> ProcessParams (params_file a) arn (role_name a) \<in> set tr
         \<and> LookUpRole (role_name a) \<in> set tr
         \<and> GenerateAdRole (role_name a) (role_description a) trust arn \<in> set tr
         \<and> manifests tr =
             [[AStr (json_dumps
                 (generate_ad_role (role_name a) (role_description a) trust arn))]]"
  using assms
proof (cases rule: main_cases)
  case (finished arn trust)
  obtain rest2 where rest2: "fst (reconcile_stack ev a arn [])
            = ProcessParams (params_file a) arn (role_name a) # rest2"
    using reconcile_stack_head by blast
  obtain rest3 where rest3: "fst (resolve_role ev a []) = LookUpRole (role_name a) # rest3"
    using resolve_role_head by blast
  have "manifests tr =
             [[AStr (json_dumps
                 (generate_ad_role (role_name a) (role_description a) trust arn))]]"
    unfolding finished(5)
    by (simp add: manifests_append manifests_Cons manifests_Nil manifests_none no_manifest
          manifest_format_def)
  moreover have "ProcessParams (params_file a) arn (role_name a) \<in> set tr"
    and "LookUpRole (role_name a) \<in> set tr"
    and "GenerateAdRole (role_name a) (role_description a) trust arn \<in> set tr"
    unfolding finished(5) rest2 rest3 by simp_all
  ultimately show ?thesis
    using finished(1-3) by blast
qed simp_all

lemma main_binds_with_provider:
  assumes "main ev a = (tr, res)" and "snd (register_provider ev a []) = Inr arn"
  shows "ProcessParams (params_file a) arn (role_name a) \<in> set tr"
proof -
  obtain rest where rest: "fst (reconcile_stack ev a arn [])
            = ProcessParams (params_file a) arn (role_name a) # rest"
    using reconcile_stack_head by blast
  from assms(1) show ?thesis
    by (cases rule: main_cases) (use assms(2) rest in simp_all)
qed

lemma main_starts_with_provider:
  assumes "main ev a = (tr, res)"
  shows "\<exists>post. tr = Log INFO ''Adding SAML provider to Account...'' []
                      # fst (register_provider ev a []) @ post"
  using assms by (cases rule: main_cases) simp_all

lemma main_provider_failed:
  assumes "main ev a = (tr, res)" and "snd (register_provider ev a []) = Inl e"
  shows "res = Inl e \<and> tr = Log INFO ''Adding SAML provider to Account...'' []
                      # fst (register_provider ev a [])"
  using assms by (cases rule: main_cases) simp_all



section \<open>Properties of the serialiser\<close>







section \<open>Properties of the command line\<close>





section \<open>The example runs\<close>

lemma demo_env_simps:
  "add_saml_provider demo_env m n = Inl SAMLProviderExistsError"
  "look_up_saml_provider demo_env n = Inr ''arn:aws:iam::1:saml-provider/idp''"
  "read_file demo_env ''params.json'' = Parsed (JArr demo_template)"
  "read_file demo_env ''broken.json'' = Parsed (JArr [JObj [(''ParameterValue'', JStr ''x'')]])"
  "validate_template demo_env t = Inr ()"
  "create_stack demo_env sn t ps = Inl StackExistsError"
  "update_stack demo_env sn t ps = Inl NoUpdateToPerformError"
  "look_up_role demo_env ''new_saml_role'' = Inr demo_role"
  "look_up_role demo_env ''absent_role'' = Inl RoleNotFoundError"
  by (simp_all add: demo_env_def)

lemma demo_args_simps:
  "saml_metadata demo_args = ''metadata.xml''"
  "template_path demo_args = ''template.yaml''"
  "params_file demo_args = Some ''params.json''"
  "stack_name demo_args = ''federated-trust-role-and-policy''"
  "provider_name demo_args = ''new_saml_provider''"
  "role_name demo_args = ''new_saml_role''"
  "role_description demo_args = ''A role created by''"
  by (simp_all add: demo_args_def)

lemma absent_args_simps:
  "saml_metadata absent_args = ''metadata.xml''"
  "template_path absent_args = ''template.yaml''"
  "params_file absent_args = Some ''params.json''"
  "stack_name absent_args = ''federated-trust-role-and-policy''"
  "provider_name absent_args = ''new_saml_provider''"
  "role_name absent_args = ''absent_role''"
  "role_description absent_args = ''A role created by''"
  by (simp_all add: absent_args_def demo_args_def)

lemma broken_args_simps:
  "saml_metadata broken_args = ''metadata.xml''"
  "template_path broken_args = ''template.yaml''"
  "params_file broken_args = Some ''broken.json''"
  "stack_name broken_args = ''federated-trust-role-and-policy''"
  "provider_name broken_args = ''new_saml_provider''"
  "role_name broken_args = ''new_saml_role''"
  "role_description broken_args = ''A role created by''"
  by (simp_all add: broken_args_def demo_args_def)



lemma demo_process_params:
  "process_params demo_env (Some ''params.json'') ''arn:aws:iam::1:saml-provider/idp''
     ''new_saml_role'' = Inr demo_bound"
  by (simp add: demo_env_simps demo_template_def demo_bound_def process_params_def
        json_load_def process_param_def)

lemma demo_run: "main demo_env demo_args = (demo_trace, Inr ())"
  by (simp add: main_def register_provider_def reconcile_stack_def stack_exists_handler_def
        resolve_role_def emit_manifest_eq log_simps demo_env_simps demo_args_simps
        demo_process_params demo_role_def demo_trace_def)



lemma absent_run: "main demo_env absent_args = (absent_trace, Inl RoleNotFoundError)"
  by (simp add: main_def register_provider_def reconcile_stack_def stack_exists_handler_def
        resolve_role_def role_not_found_handler_def log_simps demo_env_simps
        absent_args_simps demo_template_def absent_bound_def process_params_def json_load_def
        process_param_def absent_trace_def)

lemma broken_run:
  "main demo_env broken_args = (broken_trace, Inl (KeyError ''ParameterKey''))"
  by (simp add: main_def register_provider_def reconcile_stack_def stack_exists_handler_def
        log_simps demo_env_simps broken_args_simps process_params_def json_load_def
        process_param_def broken_trace_def)

section \<open>The claims\<close>

text \<open>
  C1. For every parameter template \<open>T\<close> whose entries are objects with a string
  \<^verbatim>\<open>ParameterKey\<close>, every provider reference \<open>p\<close> and every role name \<open>r\<close>,
  \<^verbatim>\<open>process_params\<close> returns a list \<open>T'\<close> of the same length, with the same keys in
  the same positions (hence the same multiset of keys). An entry is changed only when
  its key matches a marker, where a key matches when the marker occurs in it
  (\<^verbatim>\<open>marker in key\<close>): the value becomes \<open>r\<close> when \<^verbatim>\<open>RoleName\<close> occurs in the key,
  and \<open>p\<close> when only \<^verbatim>\<open>SAMLProviderARN\<close> does. Every field other than the value is
  kept in every entry, and an entry whose key matches neither marker is returned as it
  is.
\<close>

theorem process_params_binds_only_marked_entries:
  assumes "json_load ev pf = Inr (JArr T)"
    and "\<forall>e \<in> set T. entry_key e \<noteq> None"
  shows "\<exists>T'. process_params ev pf p r = Inr (JArr T')
      \<and> length T' = length T
      \<and> map entry_key T' = map entry_key T
      \<and> mset (map entry_key T') = mset (map entry_key T)
      \<and> (\<forall>i < length T. \<forall>k. entry_key (T ! i) = Some k \<longrightarrow>
            (\<forall>f. f \<noteq> ''ParameterValue'' \<longrightarrow> py_getitem (T' ! i) f = py_getitem (T ! i) f)
          \<and> (is_substring ''RoleName'' k \<longrightarrow> entry_value (T' ! i) = Some (JStr r))
          \<and> (is_substring ''SAMLProviderARN'' k \<and> \<not> is_substring ''RoleName'' k \<longrightarrow>
                entry_value (T' ! i) = Some (JStr p))
          \<and> (\<not> is_substring ''SAMLProviderARN'' k \<and> \<not> is_substring ''RoleName'' k \<longrightarrow>
                T' ! i = T ! i))"
proof -
  define T' where "T' = map (\<lambda>e. bound_entry p r (the (entry_key e)) e) T"
  have run: "process_params ev pf p r = Inr (JArr T')"
    using assms by (simp add: process_params_def process_list_entries T'_def)
  have len: "length T' = length T"
    by (simp add: T'_def)
  have keys: "map entry_key T' = map entry_key T"
    by (simp add: T'_def entry_key_bound_entry)
  have each: "(\<forall>f. f \<noteq> ''ParameterValue'' \<longrightarrow> py_getitem (T' ! i) f = py_getitem (T ! i) f)
          \<and> (is_substring ''RoleName'' k \<longrightarrow> entry_value (T' ! i) = Some (JStr r))
          \<and> (is_substring ''SAMLProviderARN'' k \<and> \<not> is_substring ''RoleName'' k \<longrightarrow>
                entry_value (T' ! i) = Some (JStr p))
          \<and> (\<not> is_substring ''SAMLProviderARN'' k \<and> \<not> is_substring ''RoleName'' k \<longrightarrow>
                T' ! i = T ! i)"
    if "i < length T" and "entry_key (T ! i) = Some k" for i k
  proof -
    have "T' ! i = bound_entry p r k (T ! i)"
      using that by (simp add: T'_def)
    then show ?thesis
      using that(2)
      by (simp add: py_getitem_bound_entry) (simp add: bound_entry_def entry_value_with_value)
  qed
  show ?thesis
    using run len keys each by (intro exI [of _ T']) simp
qed

text \<open>A template of three entries, one for each marker and one without a marker.\<close>

theorem process_params_binds_witness:
  "json_load demo_env (Some ''params.json'') = Inr (JArr demo_template)
   \<and> entry_key (demo_template ! 0) = Some ''SAMLProviderARN''
   \<and> entry_key (demo_template ! 1) = Some ''RoleName''
   \<and> entry_key (demo_template ! 2) = Some ''Environment''
   \<and> process_params demo_env (Some ''params.json'') ''P1'' ''R1''
      = Inr (JArr
          [JObj [(''ParameterKey'', JStr ''SAMLProviderARN''), (''ParameterValue'', JStr ''P1'')],
           JObj [(''ParameterKey'', JStr ''RoleName''), (''ParameterValue'', JStr ''R1'')],
           JObj [(''ParameterKey'', JStr ''Environment''),
                 (''ParameterValue'', JStr ''production'')]])"
  using process_params_binds_only_marked_entries
    [of demo_env "Some ''params.json''" demo_template "''P1''" "''R1''"]
  by (simp add: json_load_def demo_env_def demo_template_def process_params_def
        process_param_def)

text \<open>
  C2. In every run in which \<^verbatim>\<open>create_stack\<close> is called and fails with
  \<^verbatim>\<open>StackExistsError\<close> and \<^verbatim>\<open>update_stack\<close> then fails with
  \<^verbatim>\<open>NoUpdateToPerformError\<close>, the failed creation is followed by the update and
  directly after it by the role lookup. Neither of the two exceptions leaves
  \<^verbatim>\<open>main\<close>: the run ends as the role resolution ends, and when the role is found it
  returns normally with the manifest emitted.
\<close>

theorem stack_exists_and_no_update_converges:
  assumes "main ev a = (tr, res)"
    and "CreateStack n t ps \<in> set tr"
    and "create_stack ev n t ps = Inl StackExistsError"
    and "update_stack ev n t ps = Inl NoUpdateToPerformError"
  shows "(\<exists>pre post. tr = pre @ [CreateStack n t ps,
              Log INFO ''Stack %s already exists. Updating stack instead.'' [AStr n],
              UpdateStack n t ps,
              Log INFO ''Looking up role ARN...'' [],
              LookUpRole (role_name a)] @ post)
       \<and> res = (case snd (resolve_role ev a []) of Inl e \<Rightarrow> Inl e | Inr trust \<Rightarrow> Inr ())
       \<and> (\<forall>role_data role trust.
             look_up_role ev (role_name a) = Inr role_data
           \<and> py_getitem role_data ''Role'' = Inr role
           \<and> py_getitem role ''Arn'' = Inr trust
           \<longrightarrow> res = Inr () \<and> manifest_emitted tr)"
  using assms(1)
proof (cases rule: main_cases)
  case (provider_failed e)
  with assms(2) show ?thesis
    by (auto dest: register_provider_events)
next
  case (stack_failed arn e)
  with assms(2) have "CreateStack n t ps \<in> set (fst (reconcile_stack ev a arn []))"
    by (auto dest: register_provider_events)
  from reconcile_stack_converged [OF this assms(3,4)] stack_failed show ?thesis
    by simp
next
  case (role_failed arn e)
  with assms(2) have "CreateStack n t ps \<in> set (fst (reconcile_stack ev a arn []))"
    by (auto dest: register_provider_events resolve_role_events)
  note conv = reconcile_stack_converged [OF this assms(3,4)]
  obtain rest where rest: "fst (resolve_role ev a []) = LookUpRole (role_name a) # rest"
    using resolve_role_head by blast
  have "tr = (Log INFO ''Adding SAML provider to Account...'' [] # fst (register_provider ev a [])
               @ [Log INFO ''Adding Role to account...'' [],
                  ProcessParams (params_file a) arn (role_name a), ValidateTemplate t])
             @ [CreateStack n t ps,
                Log INFO ''Stack %s already exists. Updating stack instead.'' [AStr n],
                UpdateStack n t ps,
                Log INFO ''Looking up role ARN...'' [],
                LookUpRole (role_name a)] @ rest"
    unfolding role_failed(5) conv rest by simp
  then have "\<exists>pre post. tr = pre @ [CreateStack n t ps,
              Log INFO ''Stack %s already exists. Updating stack instead.'' [AStr n],
              UpdateStack n t ps,
              Log INFO ''Looking up role ARN...'' [],
              LookUpRole (role_name a)] @ post"
    by blast
  moreover have "res = (case snd (resolve_role ev a []) of Inl e \<Rightarrow> Inl e | Inr trust \<Rightarrow> Inr ())"
    using role_failed by simp
  moreover have "res = Inr () \<and> manifest_emitted tr"
    if "look_up_role ev (role_name a) = Inr role_data"
      and "py_getitem role_data ''Role'' = Inr role"
      and "py_getitem role ''Arn'' = Inr trust" for role_data role trust
    using resolve_role_found [OF that] role_failed(3) by simp
  ultimately show ?thesis by blast
next
  case (finished arn trust)
  with assms(2) have "CreateStack n t ps \<in> set (fst (reconcile_stack ev a arn []))"
    by (auto dest: register_provider_events resolve_role_events)
  note conv = reconcile_stack_converged [OF this assms(3,4)]
  obtain rest where rest: "fst (resolve_role ev a []) = LookUpRole (role_name a) # rest"
    using resolve_role_head by blast
  have "tr = (Log INFO ''Adding SAML provider to Account...'' [] # fst (register_provider ev a [])
               @ [Log INFO ''Adding Role to account...'' [],
                  ProcessParams (params_file a) arn (role_name a), ValidateTemplate t])
             @ [CreateStack n t ps,
                Log INFO ''Stack %s already exists. Updating stack instead.'' [AStr n],
                UpdateStack n t ps,
                Log INFO ''Looking up role ARN...'' [],
                LookUpRole (role_name a)]
             @ (rest @ [Log INFO ''Generating appRoles JSON blob...'' [],
                     GenerateAdRole (role_name a) (role_description a) trust arn,
                     Log INFO manifest_format
                       [AStr (json_dumps
                          (generate_ad_role (role_name a) (role_description a) trust arn))]])"
    unfolding finished(5) conv rest by simp
  then have "\<exists>pre post. tr = pre @ [CreateStack n t ps,
              Log INFO ''Stack %s already exists. Updating stack instead.'' [AStr n],
              UpdateStack n t ps,
              Log INFO ''Looking up role ARN...'' [],
              LookUpRole (role_name a)] @ post"
    by blast
  moreover have "res = (case snd (resolve_role ev a []) of Inl e \<Rightarrow> Inl e | Inr trust \<Rightarrow> Inr ())"
    using finished by simp
  moreover have "manifest_emitted tr"
    unfolding finished(5) by (simp add: manifest_emitted_def)
  ultimately show ?thesis
    using finished(4) by blast
qed

text \<open>The run of the provisioned account takes exactly this path.\<close>

theorem stack_exists_and_no_update_converges_witness:
  "main demo_env demo_args = (demo_trace, Inr ())
   \<and> CreateStack ''federated-trust-role-and-policy'' ''template.yaml'' demo_bound
        \<in> set demo_trace
   \<and> create_stack demo_env ''federated-trust-role-and-policy'' ''template.yaml'' demo_bound
        = Inl StackExistsError
   \<and> update_stack demo_env ''federated-trust-role-and-policy'' ''template.yaml'' demo_bound
        = Inl NoUpdateToPerformError
   \<and> look_up_role demo_env (role_name demo_args) = Inr demo_role
   \<and> manifest_emitted demo_trace"
proof -
  have called: "CreateStack ''federated-trust-role-and-policy'' ''template.yaml'' demo_bound
        \<in> set demo_trace"
    by (simp add: demo_trace_def)
  have role: "look_up_role demo_env (role_name demo_args) = Inr demo_role"
    by (simp add: demo_env_simps demo_args_simps)
  have arn: "py_getitem demo_role ''Role''
               = Inr (JObj [(''Arn'', JStr ''arn:aws:iam::1:role/new_saml_role'')])"
    "py_getitem (JObj [(''Arn'', JStr ''arn:aws:iam::1:role/new_saml_role'')]) ''Arn''
               = Inr (JStr ''arn:aws:iam::1:role/new_saml_role'')"
    by (simp_all add: demo_role_def)
  from stack_exists_and_no_update_converges
    [OF demo_run called demo_env_simps(6) demo_env_simps(7)] role arn
  have "manifest_emitted demo_trace"
    by blast
  with demo_run called role show ?thesis
    by (simp add: demo_env_simps)
qed

text \<open>
  C3. In every run in which \<^verbatim>\<open>add_saml_provider\<close> fails with
  \<^verbatim>\<open>SAMLProviderExistsError\<close>, the provider lookup is called next. If the lookup
  raises, that exception leaves \<^verbatim>\<open>main\<close> and nothing else happens in the run. If it
  returns a reference \<open>P1\<close>, then \<open>P1\<close> is the provider reference of every later
  step: \<^verbatim>\<open>process_params\<close> is called with it, the parameters of every stack call are
  the ones bound with it, and the manifest is generated from it.
\<close>

theorem existing_provider_reference_is_used:
  assumes "main ev a = (tr, res)"
    and "add_saml_provider ev (saml_metadata a) (provider_name a) = Inl SAMLProviderExistsError"
  shows "(\<exists>post. tr = [Log INFO ''Adding SAML provider to Account...'' [],
                      AddSamlProvider (saml_metadata a) (provider_name a),
                      Log INFO ''SAML provider %s already exists. Looking up ARN...''
                        [AStr (provider_name a)],
                      LookUpSamlProvider (provider_name a)] @ post)
       \<and> (\<forall>e. look_up_saml_provider ev (provider_name a) = Inl e \<longrightarrow>
              res = Inl e
            \<and> tr = [Log INFO ''Adding SAML provider to Account...'' [],
                    AddSamlProvider (saml_metadata a) (provider_name a),
                    Log INFO ''SAML provider %s already exists. Looking up ARN...''
                      [AStr (provider_name a)],
                    LookUpSamlProvider (provider_name a)])
       \<and> (\<forall>P1. look_up_saml_provider ev (provider_name a) = Inr P1 \<longrightarrow>
              ProcessParams (params_file a) P1 (role_name a) \<in> set tr
            \<and> (\<forall>pf p r. ProcessParams pf p r \<in> set tr \<longrightarrow> p = P1)
            \<and> (\<forall>sn tp ps. CreateStack sn tp ps \<in> set tr \<or> UpdateStack sn tp ps \<in> set tr \<longrightarrow>
                  process_params ev (params_file a) P1 (role_name a) = Inr ps)
            \<and> (\<forall>rn rd t p. GenerateAdRole rn rd t p \<in> set tr \<longrightarrow> p = P1)
            \<and> (res = Inr () \<longrightarrow>
                  (\<exists>trust. GenerateAdRole (role_name a) (role_description a) trust P1 \<in> set tr
                     \<and> manifests tr =
                         [[AStr (json_dumps (generate_ad_role (role_name a)
                                   (role_description a) trust P1))]])))"
proof -
  note rp = register_provider_exists [OF assms(2)]
  have first: "\<exists>post. tr = [Log INFO ''Adding SAML provider to Account...'' [],
                      AddSamlProvider (saml_metadata a) (provider_name a),
                      Log INFO ''SAML provider %s already exists. Looking up ARN...''
                        [AStr (provider_name a)],
                      LookUpSamlProvider (provider_name a)] @ post"
    using main_starts_with_provider [OF assms(1)] by (simp add: rp)
  have failed: "res = Inl e
            \<and> tr = [Log INFO ''Adding SAML provider to Account...'' [],
                    AddSamlProvider (saml_metadata a) (provider_name a),
                    Log INFO ''SAML provider %s already exists. Looking up ARN...''
                      [AStr (provider_name a)],
                    LookUpSamlProvider (provider_name a)]"
    if "look_up_saml_provider ev (provider_name a) = Inl e" for e
    using main_provider_failed [OF assms(1), of e] that by (simp add: rp)
  have found: "ProcessParams (params_file a) P1 (role_name a) \<in> set tr
            \<and> (\<forall>pf p r. ProcessParams pf p r \<in> set tr \<longrightarrow> p = P1)
            \<and> (\<forall>sn tp ps. CreateStack sn tp ps \<in> set tr \<or> UpdateStack sn tp ps \<in> set tr \<longrightarrow>
                  process_params ev (params_file a) P1 (role_name a) = Inr ps)
            \<and> (\<forall>rn rd t p. GenerateAdRole rn rd t p \<in> set tr \<longrightarrow> p = P1)
            \<and> (res = Inr () \<longrightarrow>
                  (\<exists>trust. GenerateAdRole (role_name a) (role_description a) trust P1 \<in> set tr
                     \<and> manifests tr =
                         [[AStr (json_dumps (generate_ad_role (role_name a)
                                   (role_description a) trust P1))]]))"
    if "look_up_saml_provider ev (provider_name a) = Inr P1" for P1
  proof -
    from that have P1: "snd (register_provider ev a []) = Inr P1"
      by (simp add: rp)
    have 1: "ProcessParams (params_file a) P1 (role_name a) \<in> set tr"
      using main_binds_with_provider [OF assms(1) P1] .
    have 2: "p = P1" if "ProcessParams pf p r \<in> set tr" for pf p r
      using main_process_params_events [OF assms(1) that] P1 by simp
    have 3: "process_params ev (params_file a) P1 (role_name a) = Inr ps"
      if "CreateStack sn tp ps \<in> set tr \<or> UpdateStack sn tp ps \<in> set tr" for sn tp ps
      using main_stack_events [OF assms(1) that] P1 by auto
    have 4: "p = P1" if "GenerateAdRole rn rd t p \<in> set tr" for rn rd t p
      using main_generate_events [OF assms(1) that] P1 by simp
    have 5: "\<exists>trust. GenerateAdRole (role_name a) (role_description a) trust P1 \<in> set tr
                     \<and> manifests tr =
                         [[AStr (json_dumps (generate_ad_role (role_name a)
                                   (role_description a) trust P1))]]"
      if "res = Inr ()"
      using main_finished [of ev a tr] assms(1) that P1 by auto
    from 1 2 3 4 5 show ?thesis by blast
  qed
  from first failed found show ?thesis by blast
qed

text \<open>In the provisioned account the provider exists and its reference is looked up.\<close>

theorem existing_provider_reference_is_used_witness:
  "main demo_env demo_args = (demo_trace, Inr ())
   \<and> add_saml_provider demo_env (saml_metadata demo_args) (provider_name demo_args)
        = Inl SAMLProviderExistsError
   \<and> look_up_saml_provider demo_env (provider_name demo_args)
        = Inr ''arn:aws:iam::1:saml-provider/idp''
   \<and> ProcessParams (params_file demo_args) ''arn:aws:iam::1:saml-provider/idp''
        (role_name demo_args) \<in> set demo_trace"
  using existing_provider_reference_is_used [OF demo_run demo_env_simps(1)]
  by (simp add: demo_run demo_env_simps)

text \<open>
  C4. In every run in which the role lookup fails with \<^verbatim>\<open>RoleNotFoundError\<close>, the
  run ends with an exception and no manifest is emitted, whatever happened before. When
  the run gets as far as the lookup, the lookup is followed by one record at level
  WARNING that carries the role name, that record is the last event of the run, and the
  exception that leaves \<^verbatim>\<open>main\<close> is the same \<^verbatim>\<open>RoleNotFoundError\<close>.
\<close>

theorem role_not_found_is_fatal:
  assumes "main ev a = (tr, res)"
    and "look_up_role ev (role_name a) = Inl RoleNotFoundError"
  shows "(\<exists>e. res = Inl e) \<and> \<not> manifest_emitted tr
       \<and> (LookUpRole (role_name a) \<in> set tr \<longrightarrow>
            res = Inl RoleNotFoundError
          \<and> (\<exists>pre. tr = pre @ [LookUpRole (role_name a),
                 Log WARNING (''Couldn'' @ [CHR 0x27] @ ''t find role %s'')
                   [AStr (role_name a)]]))"
  using assms(1)
proof (cases rule: main_cases)
  case (provider_failed e)
  then show ?thesis
    by (auto simp: manifest_emitted_def list_ex_iff no_manifest manifest_format_def
          register_provider_no_role_lookup)
next
  case (stack_failed arn e)
  then show ?thesis
    by (auto simp: manifest_emitted_def list_ex_iff no_manifest manifest_format_def
          register_provider_no_role_lookup reconcile_stack_no_role_lookup)
next
  case (role_failed arn e)
  moreover note rr = resolve_role_not_found [OF assms(2)]
  ultimately have "res = Inl RoleNotFoundError" and "\<not> manifest_emitted tr"
    by (auto simp: manifest_emitted_def list_ex_iff no_manifest manifest_format_def)
  moreover have "\<exists>pre. tr = pre @ [LookUpRole (role_name a),
                 Log WARNING (''Couldn'' @ [CHR 0x27] @ ''t find role %s'')
                   [AStr (role_name a)]]"
    unfolding role_failed(5) rr by (simp add: exI [of _ "_ # _ @ _ # _ @ [_]"])
  ultimately show ?thesis by simp
next
  case (finished arn trust)
  then show ?thesis
    using resolve_role_not_found [OF assms(2)] by simp
qed

text \<open>
  A run that recovers from an existing provider and an existing stack and then does not
  find its role.
\<close>

theorem role_not_found_is_fatal_witness:
  "main demo_env absent_args = (absent_trace, Inl RoleNotFoundError)
   \<and> look_up_role demo_env (role_name absent_args) = Inl RoleNotFoundError
   \<and> LookUpRole (role_name absent_args) \<in> set absent_trace
   \<and> \<not> manifest_emitted absent_trace"
proof -
  have nf: "look_up_role demo_env (role_name absent_args) = Inl RoleNotFoundError"
    by (simp add: demo_env_simps absent_args_simps)
  have "LookUpRole (role_name absent_args) \<in> set absent_trace"
    by (simp add: absent_trace_def absent_args_simps)
  with role_not_found_is_fatal [OF absent_run nf] absent_run nf show ?thesis
    by simp
qed








text \<open>
  C8. When the parameters file holds a list with an entry that has no
  \<^verbatim>\<open>ParameterKey\<close>, \<^verbatim>\<open>process_params\<close> raises whatever the provider reference and
  the role name are, and every run ends with an exception, emits no manifest, and
  neither validates the template nor calls a stack operation. When the run reaches
  \<^verbatim>\<open>process_params\<close>, that call is its last event and the exception that leaves
  \<^verbatim>\<open>main\<close> is the one \<^verbatim>\<open>process_params\<close> raised, a \<^verbatim>\<open>KeyError\<close> for
  \<^verbatim>\<open>ParameterKey\<close> or a \<^verbatim>\<open>TypeError\<close>: no handler of \<^verbatim>\<open>main\<close> catches it.
\<close>

theorem missing_parameter_key_is_fatal:
  assumes "main ev a = (tr, res)"
    and "params_file a = Some path"
    and "read_file ev path = Parsed (JArr T)"
    and "e \<in> set T"
    and "py_getitem e ''ParameterKey'' = Inl err"
  shows "(\<forall>arn r. \<exists>x. process_params ev (params_file a) arn r = Inl x
                  \<and> (x = KeyError ''ParameterKey'' \<or> x = TypeError))
       \<and> (\<exists>x. res = Inl x) \<and> \<not> manifest_emitted tr \<and> \<not> list_ex is_mutation tr
       \<and> ValidateTemplate (template_path a) \<notin> set tr
       \<and> (\<forall>arn. ProcessParams (params_file a) arn (role_name a) \<in> set tr \<longrightarrow>
             (\<exists>x. process_params ev (params_file a) arn (role_name a) = Inl x
                  \<and> res = Inl x \<and> (x = KeyError ''ParameterKey'' \<or> x = TypeError))
           \<and> last tr = ProcessParams (params_file a) arn (role_name a))"
proof -
  have binding_fails: "\<forall>arn r. \<exists>x. process_params ev (params_file a) arn r = Inl x
                  \<and> (x = KeyError ''ParameterKey'' \<or> x = TypeError)"
    using process_params_missing_key [OF assms(2-5)] by blast
  have stack: "\<exists>x. reconcile_stack ev a arn [] =
                 ([ProcessParams (params_file a) arn (role_name a)], Inl x)
             \<and> process_params ev (params_file a) arn (role_name a) = Inl x
             \<and> (x = KeyError ''ParameterKey'' \<or> x = TypeError)" for arn
  proof -
    from process_params_missing_key [OF assms(2-5)] obtain x
      where x: "process_params ev (params_file a) arn (role_name a) = Inl x"
        and kind: "x = KeyError ''ParameterKey'' \<or> x = TypeError"
      by blast
    from kind have "x \<noteq> StackExistsError" by auto
    from reconcile_stack_no_validate_when_binding_fails [OF x this] x kind
    show ?thesis by blast
  qed
  from assms(1) have "(\<exists>x. res = Inl x) \<and> \<not> manifest_emitted tr
       \<and> \<not> list_ex is_mutation tr
       \<and> ValidateTemplate (template_path a) \<notin> set tr
       \<and> (\<forall>arn. ProcessParams (params_file a) arn (role_name a) \<in> set tr \<longrightarrow>
             (\<exists>x. process_params ev (params_file a) arn (role_name a) = Inl x
                  \<and> res = Inl x \<and> (x = KeyError ''ParameterKey'' \<or> x = TypeError))
           \<and> last tr = ProcessParams (params_file a) arn (role_name a))"
  proof (cases rule: main_cases)
    case (provider_failed e1)
    then show ?thesis
      by (auto simp: manifest_emitted_def list_ex_iff manifest_format_def is_mutation_def
          dest: register_provider_events)
  next
    case (stack_failed arn e1)
    from stack [of arn] obtain x
      where rs: "reconcile_stack ev a arn [] =
                 ([ProcessParams (params_file a) arn (role_name a)], Inl x)"
        and x: "process_params ev (params_file a) arn (role_name a) = Inl x"
        and kind: "x = KeyError ''ParameterKey'' \<or> x = TypeError"
      by blast
    have tr: "tr = Log INFO ''Adding SAML provider to Account...'' []
                  # fst (register_provider ev a [])
                  @ [Log INFO ''Adding Role to account...'' [],
                     ProcessParams (params_file a) arn (role_name a)]"
      using stack_failed(4) rs by simp
    have res: "res = Inl x"
      using stack_failed(2,3) rs by simp
    have "\<not> manifest_emitted tr" and "\<not> list_ex is_mutation tr"
      and "ValidateTemplate (template_path a) \<notin> set tr"
      unfolding tr
      by (auto simp: manifest_emitted_def list_ex_iff is_mutation_def manifest_format_def
          dest: register_provider_events)
    moreover have "(\<exists>x. process_params ev (params_file a) arn' (role_name a) = Inl x
                  \<and> res = Inl x \<and> (x = KeyError ''ParameterKey'' \<or> x = TypeError))
           \<and> last tr = ProcessParams (params_file a) arn' (role_name a)"
      if "ProcessParams (params_file a) arn' (role_name a) \<in> set tr" for arn'
    proof -
      from that have "arn' = arn"
        unfolding tr by (auto dest: register_provider_events)
      with x res kind tr show ?thesis by simp
    qed
    ultimately show ?thesis
      using res by blast
  next
    case (role_failed arn e1)
    with stack [of arn] show ?thesis by auto
  next
    case (finished arn trust)
    with stack [of arn] show ?thesis by auto
  qed
  with binding_fails show ?thesis by blast
qed

text \<open>A parameters file whose only entry has a value and no key.\<close>

theorem missing_parameter_key_is_fatal_witness:
  "main demo_env broken_args = (broken_trace, Inl (KeyError ''ParameterKey''))
   \<and> params_file broken_args = Some ''broken.json''
   \<and> read_file demo_env ''broken.json''
        = Parsed (JArr [JObj [(''ParameterValue'', JStr ''x'')]])
   \<and> py_getitem (JObj [(''ParameterValue'', JStr ''x'')]) ''ParameterKey''
        = Inl (KeyError ''ParameterKey'')
   \<and> \<not> manifest_emitted broken_trace
   \<and> \<not> list_ex is_mutation broken_trace"
proof -
  have pf: "params_file broken_args = Some ''broken.json''"
    by (simp add: broken_args_simps)
  have mem: "JObj [(''ParameterValue'', JStr ''x'')]
               \<in> set [JObj [(''ParameterValue'', JStr ''x'')]]"
    by simp
  have missing: "py_getitem (JObj [(''ParameterValue'', JStr ''x'')]) ''ParameterKey''
        = Inl (KeyError ''ParameterKey'')"
    by simp
  from missing_parameter_key_is_fatal [OF broken_run pf demo_env_simps(4) mem missing]
  have "\<not> manifest_emitted broken_trace" and "\<not> list_ex is_mutation broken_trace"
    by blast+
  with broken_run pf missing show ?thesis
    by (simp add: demo_env_simps)
qed

text \<open>
  C9. A marker is recognised by containment, not by equality. For an entry whose
  \<^verbatim>\<open>ParameterKey\<close> is a string \<open>k\<close>: if \<^verbatim>\<open>RoleName\<close> occurs anywhere in \<open>k\<close>, the
  value becomes the role name, also when \<^verbatim>\<open>SAMLProviderARN\<close> occurs in \<open>k\<close> as well
  (the role-name override is the later one); if only \<^verbatim>\<open>SAMLProviderARN\<close> occurs in
  \<open>k\<close>, the value becomes the provider reference; if neither occurs, the entry is
  returned as it is. Here \<open>sublist m k\<close> says that \<open>k = ps @ m @ ss\<close> for some
  \<open>ps\<close> and \<open>ss\<close>.
\<close>

theorem marker_recognition_is_containment:
  assumes "map_of kvs ''ParameterKey'' = Some (JStr k)"
  shows "(sublist ''RoleName'' k \<longrightarrow>
            process_param p r (JObj kvs)
              = Inr (JObj (dict_set ''ParameterValue'' (JStr r) kvs)))
       \<and> (sublist ''SAMLProviderARN'' k \<and> \<not> sublist ''RoleName'' k \<longrightarrow>
            process_param p r (JObj kvs)
              = Inr (JObj (dict_set ''ParameterValue'' (JStr p) kvs)))
       \<and> (\<not> sublist ''SAMLProviderARN'' k \<and> \<not> sublist ''RoleName'' k \<longrightarrow>
            process_param p r (JObj kvs) = Inr (JObj kvs))"
proof -
  have "entry_key (JObj kvs) = Some k"
    using assms by simp
  then have "process_param p r (JObj kvs) = Inr (bound_entry p r k (JObj kvs))"
    by (rule process_param_entry)
  then show ?thesis
    by (simp add: bound_entry_def is_substring_sublist)
qed

text \<open>
  The key \<^verbatim>\<open>TrustRoleName\<close> is not the marker \<^verbatim>\<open>RoleName\<close> but contains it, and its
  value is overridden with the role name.
\<close>

theorem marker_recognition_witness:
  "map_of [(''ParameterKey'', JStr ''TrustRoleName''), (''ParameterValue'', JStr ''old'')]
      ''ParameterKey'' = Some (JStr ''TrustRoleName'')
   \<and> sublist ''RoleName'' ''TrustRoleName''
   \<and> process_param ''P1'' ''R1''
        (JObj [(''ParameterKey'', JStr ''TrustRoleName''), (''ParameterValue'', JStr ''old'')])
      = Inr (JObj [(''ParameterKey'', JStr ''TrustRoleName''), (''ParameterValue'', JStr ''R1'')])"
  using marker_recognition_is_containment
    [of "[(''ParameterKey'', JStr ''TrustRoleName''), (''ParameterValue'', JStr ''old'')]"
        "''TrustRoleName''" "''P1''" "''R1''"]
  by (simp add: is_substring_sublist [symmetric])

text \<open>
  C10. In every run that returns normally, the one value \<^verbatim>\<open>args.role_name\<close> is the
  role name in all three places: \<^verbatim>\<open>process_params\<close> is called with it and binds it
  to every entry of the parameters whose key contains \<^verbatim>\<open>RoleName\<close>, and these are the
  parameters of every stack call; the role lookup is called with it and with no other
  name; and \<^verbatim>\<open>generate_ad_role\<close> receives it as the role name of the one manifest
  that is emitted, where it is the \<^verbatim>\<open>roleName\<close> field.
\<close>

theorem one_role_name_throughout:
  assumes "main ev a = (tr, Inr ())"
  shows "\<exists>arn trust ps.
      ProcessParams (params_file a) arn (role_name a) \<in> set tr
    \<and> process_params ev (params_file a) arn (role_name a) = Inr ps
    \<and> (CreateStack (stack_name a) (template_path a) ps \<in> set tr
        \<or> UpdateStack (stack_name a) (template_path a) ps \<in> set tr)
    \<and> (\<forall>sn tp ps'. CreateStack sn tp ps' \<in> set tr \<or> UpdateStack sn tp ps' \<in> set tr \<longrightarrow>
          ps' = ps)
    \<and> (\<forall>T e k. ps = JArr T \<and> e \<in> set T \<and> entry_key e = Some k
              \<and> is_substring ''RoleName'' k \<longrightarrow>
          entry_value e = Some (JStr (role_name a)))
    \<and> LookUpRole (role_name a) \<in> set tr
    \<and> (\<forall>r. LookUpRole r \<in> set tr \<longrightarrow> r = role_name a)
    \<and> GenerateAdRole (role_name a) (role_description a) trust arn \<in> set tr
    \<and> (\<forall>rn rd t p. GenerateAdRole rn rd t p \<in> set tr \<longrightarrow> rn = role_name a)
    \<and> manifests tr =
        [[AStr (json_dumps (generate_ad_role (role_name a) (role_description a) trust arn))]]
    \<and> py_getitem (generate_ad_role (role_name a) (role_description a) trust arn) ''roleName''
        = Inr (JStr (role_name a))"
proof -
  from main_finished [OF assms] obtain arn trust
    where R1: "snd (register_provider ev a []) = Inr arn"
      and R2: "snd (reconcile_stack ev a arn []) = Inr ()"
      and pp: "ProcessParams (params_file a) arn (role_name a) \<in> set tr"
      and lr: "LookUpRole (role_name a) \<in> set tr"
      and ga: "GenerateAdRole (role_name a) (role_description a) trust arn \<in> set tr"
      and mf: "manifests tr =
        [[AStr (json_dumps (generate_ad_role (role_name a) (role_description a) trust arn))]]"
    by blast
  from reconcile_stack_ok [OF R2] obtain ps
    where ps: "process_params ev (params_file a) arn (role_name a) = Inr ps"
      and call: "CreateStack (stack_name a) (template_path a) ps
                  \<in> set (fst (reconcile_stack ev a arn []))
               \<or> UpdateStack (stack_name a) (template_path a) ps
                  \<in> set (fst (reconcile_stack ev a arn []))"
    by blast
  have called: "CreateStack (stack_name a) (template_path a) ps \<in> set tr
        \<or> UpdateStack (stack_name a) (template_path a) ps \<in> set tr"
    using assms
  proof (cases rule: main_cases)
    case (finished arn' trust')
    with R1 call show ?thesis by auto
  qed simp_all
  have same: "ps' = ps"
    if "CreateStack sn tp ps' \<in> set tr \<or> UpdateStack sn tp ps' \<in> set tr" for sn tp ps'
    using main_stack_events [OF assms that] R1 ps by auto
  have bound: "entry_value e = Some (JStr (role_name a))"
    if "ps = JArr T \<and> e \<in> set T \<and> entry_key e = Some k \<and> is_substring ''RoleName'' k"
    for T e k
    using process_params_role_name [of ev "params_file a" arn "role_name a" T e k] ps that
    by simp
  have lookups: "r = role_name a" if "LookUpRole r \<in> set tr" for r
    using main_role_lookup_events [OF assms that] .
  have gens: "rn = role_name a" if "GenerateAdRole rn rd t p \<in> set tr" for rn rd t p
    using main_generate_events [OF assms that] by simp
  have field: "py_getitem (generate_ad_role (role_name a) (role_description a) trust arn)
        ''roleName'' = Inr (JStr (role_name a))"
    by (simp add: generate_ad_role_def)
  from pp ps called same bound lr lookups ga gens mf field show ?thesis
    by blast
qed

text \<open>The run of the provisioned account returns normally.\<close>

theorem one_role_name_throughout_witness:
  "main demo_env demo_args = (demo_trace, Inr ())
   \<and> LookUpRole (role_name demo_args) \<in> set demo_trace
   \<and> role_name demo_args = ''new_saml_role''"
proof -
  from one_role_name_throughout [OF demo_run]
  have "LookUpRole (role_name demo_args) \<in> set demo_trace"
    by blast
  with demo_run show ?thesis
    by (simp add: demo_args_simps)
qed

end
